theory Spec2Isabelle
  imports Main
begin

section \<open>Data model\<close>

text \<open>
  The collections of the store, as the Mongoose schemas under \<open>src/models\<close> declare them.
  An ObjectId is a natural number; a collection is the list of its documents in natural
  (insertion) order, which is the order \<open>find\<close> and \<open>findOne\<close> scan.  Status and kind
  fields stay strings, because the code compares them with string literals.
\<close>

type_synonym oid = nat

record user =
  user_id :: oid
  username :: string
  email :: string
  password :: string
  displayName :: string
  isEmailVerified :: bool
  user_status :: string
  user_updatedAt :: int

record service =
  service_id :: oid
  service_name :: string
  apiKey :: string
  apiSecret :: string
  active :: bool

record role =
  role_id :: oid
  role_name :: string
  isGlobal :: bool
  role_serviceId :: "oid option"
  permissions :: "string list"

record userService =
  us_id :: oid
  us_userId :: oid
  us_serviceId :: "oid option"
  us_roles :: "oid list"
  us_status :: string

record token =
  token_id :: oid
  token_userId :: oid
  token_value :: string
  token_type :: string
  expiresAt :: int
  metadata_serviceId :: "oid option"
  metadata_deviceInfo :: string
  metadata_ipAddress :: string

text \<open>JSON values, for request bodies, response bodies and the detail payload of an audit
  entry.  An object is the list of its properties in insertion order.\<close>

datatype json =
    JNull
  | JBool bool
  | JNum int
  | JStr string
  | JArr "json list"
  | JObj "(string \<times> json) list"

record auditLog =
  al_userId :: "oid option"
  al_serviceId :: "oid option"
  al_action :: string
  al_details :: json
  al_ipAddress :: string
  al_userAgent :: string
  al_timestamp :: int

record db =
  users :: "user list"
  services :: "service list"
  roles :: "role list"
  userServices :: "userService list"
  tokens :: "token list"
  auditLogs :: "auditLog list"

text \<open>
  What a middleware or controller hands to \<open>next(err)\<close>: an \<open>APIError\<close> with its message
  and status code, a Mongoose ValidationError with its message and the messages of its
  paths, a duplicate-key error of the store (code 11000) with the field and value, a
  Mongoose CastError with its path and value, or any other exception, kept by name and
  message (the messages of exceptions raised by the runtime are shortened).
\<close>

datatype error =
    APIError string nat
  | ValidationError string "string list"
  | DuplicateKey string string
  | CastError string json
  | Thrown string string

fun statusCode_of :: "error \<Rightarrow> nat option" where
  "statusCode_of (APIError m c) = Some c"
| "statusCode_of e = None"

text \<open>The claims of an access token, as \<open>generateToken\<close> signs them; \<open>jwt.verify\<close> either
  returns them or throws an error that the code tells apart by its name.\<close>

record jwt_payload =
  jwt_id :: oid
  jwt_username :: string
  jwt_serviceId :: "oid option"

datatype jwt_result =
    Decoded jwt_payload
  | JwtThrows string string

text \<open>The Express request, with the fields the middlewares read and attach.\<close>

record request =
  req_headers :: "(string \<times> string) list"
  req_method :: string
  req_path :: string
  req_params :: "(string \<times> json) list"
  req_query :: "(string \<times> json) list"
  req_body :: json
  req_user :: "user option"
  req_service :: "service option"
  req_userService :: "userService option"
  req_userRoles :: "role list option"
  req_token :: "token option"

section \<open>Store queries\<close>

definition User_findById :: "db \<Rightarrow> oid \<Rightarrow> user option" where
  "User_findById d i = find (\<lambda>u. user_id u = i) (users d)"

definition Service_findById :: "db \<Rightarrow> oid \<Rightarrow> service option" where
  "Service_findById d i = find (\<lambda>s. service_id s = i) (services d)"

definition Role_findById :: "db \<Rightarrow> oid \<Rightarrow> role option" where
  "Role_findById d i = find (\<lambda>r. role_id r = i) (roles d)"

text \<open>\<open>UserService.findOne({ userId, serviceId })\<close>.\<close>

definition UserService_findOne :: "db \<Rightarrow> oid \<Rightarrow> oid option \<Rightarrow> userService option" where
  "UserService_findOne d u s =
     find (\<lambda>g. us_userId g = u \<and> us_serviceId g = s) (userServices d)"

text \<open>\<open>.populate('roles')\<close>: every referenced id is replaced by its Role document; an id
  with no document is dropped from the populated array.\<close>

definition populate_roles :: "db \<Rightarrow> oid list \<Rightarrow> role list" where
  "populate_roles d ids = List.map_filter (Role_findById d) ids"

text \<open>\<open>UserService.distinct('roles', { userId })\<close>.\<close>

definition UserService_distinct_roles :: "db \<Rightarrow> oid \<Rightarrow> oid list" where
  "UserService_distinct_roles d u =
     remdups (concat (map us_roles (filter (\<lambda>g. us_userId g = u) (userServices d))))"

text \<open>\<open>Role.find({ _id: { $in: ids }, isGlobal: true })\<close>.\<close>

definition Role_find_global_in :: "db \<Rightarrow> oid list \<Rightarrow> role list" where
  "Role_find_global_in d ids = filter (\<lambda>r. role_id r \<in> set ids \<and> isGlobal r) (roles d)"

section \<open>auth.middleware.js\<close>

text \<open>\<open>String.prototype.split\<close> on a one-character separator.\<close>

fun split_on :: "char \<Rightarrow> string \<Rightarrow> string list" where
  "split_on c [] = [[]]"
| "split_on c (x # xs) =
     (if x = c then [] # split_on c xs
      else (case split_on c xs of
              [] \<Rightarrow> [[x]]
            | w # ws \<Rightarrow> (x # w) # ws))"

definition startsWith :: "string \<Rightarrow> string \<Rightarrow> bool" where
  "startsWith s p = (take (length p) s = p)"

text \<open>The \<open>catch\<close> block of \<open>authenticate\<close>.\<close>

definition authenticate_catch :: "string \<Rightarrow> string \<Rightarrow> error" where
  "authenticate_catch name msg =
     (if name = ''JsonWebTokenError'' then APIError ''Invalid token.'' 401
      else if name = ''TokenExpiredError'' then APIError ''Token expired.'' 401
      else Thrown name msg)"

text \<open>
  \<open>authenticate\<close>, after the token has been verified: load the user, then either the
  service and the user's relationship with it, or the user's global roles.
  \<open>Inl e\<close> is \<open>next(e)\<close>; \<open>Inr req'\<close> is \<open>next()\<close> with the request as the middleware
  leaves it.
\<close>

definition authenticate_decoded :: "db \<Rightarrow> request \<Rightarrow> jwt_payload \<Rightarrow> error + request" where
  "authenticate_decoded d req decoded =
     (case User_findById d (jwt_id decoded) of
        None \<Rightarrow> Inl (APIError ''User not found or token is invalid.'' 401)
      | Some u \<Rightarrow>
          if user_status u \<noteq> ''active'' then Inl (APIError ''User account is not active.'' 403)
          else
            (case jwt_serviceId decoded of
               Some sid \<Rightarrow>
                 (case Service_findById d sid of
                    None \<Rightarrow> Inl (APIError ''Service not found or token is invalid.'' 401)
                  | Some s \<Rightarrow>
                      if \<not> active s then Inl (APIError ''Service is not active.'' 403)
                      else
                        (case UserService_findOne d (user_id u) (Some (service_id s)) of
                           None \<Rightarrow>
                             Inl (APIError ''User does not have access to this service.'' 403)
                         | Some g \<Rightarrow>
                             if us_status g \<noteq> ''active''
                             then Inl (APIError ''User access to this service is not active.'' 403)
                             else Inr (req\<lparr>req_user := Some u, req_service := Some s,
                                           req_userService := Some g,
                                           req_userRoles := Some (populate_roles d (us_roles g))\<rparr>)))
             | None \<Rightarrow>
                 Inr (req\<lparr>req_user := Some u,
                          req_userRoles :=
                            Some (Role_find_global_in d (UserService_distinct_roles d (user_id u)))\<rparr>)))"

text \<open>The bearer token of the request: the second piece of the \<open>Authorization\<close> header
  split at spaces, when the header is there and starts with \<open>Bearer \<close>.\<close>

definition bearer_token :: "request \<Rightarrow> error + string" where
  "bearer_token req =
     (case map_of (req_headers req) ''authorization'' of
        None \<Rightarrow> Inl (APIError ''Authentication required. Please provide a valid token.'' 401)
      | Some authHeader \<Rightarrow>
          if authHeader = [] \<or> \<not> startsWith authHeader ''Bearer ''
          then Inl (APIError ''Authentication required. Please provide a valid token.'' 401)
          else
            (case split_on CHR '' '' authHeader of
               b # tok # rest \<Rightarrow>
                 if tok = []
                 then Inl (APIError ''Authentication required. Please provide a valid token.'' 401)
                 else Inr tok
             | _ \<Rightarrow> Inl (APIError ''Authentication required. Please provide a valid token.'' 401)))"

definition authenticate :: "(string \<Rightarrow> jwt_result) \<Rightarrow> db \<Rightarrow> request \<Rightarrow> error + request" where
  "authenticate jwt_verify d req =
     (case bearer_token req of
        Inl e \<Rightarrow> Inl e
      | Inr tok \<Rightarrow>
          (case jwt_verify tok of
             JwtThrows name msg \<Rightarrow> Inl (authenticate_catch name msg)
           | Decoded decoded \<Rightarrow> authenticate_decoded d req decoded))"

text \<open>\<open>hasPermission(permission)\<close>: \<open>Inr ()\<close> is \<open>next()\<close>.\<close>

definition hasPermission :: "string \<Rightarrow> request \<Rightarrow> error + unit" where
  "hasPermission permission req =
     (case req_userRoles req of
        None \<Rightarrow> Inl (APIError ''User roles not found.'' 500)
      | Some userRoles \<Rightarrow>
          if list_ex (\<lambda>r. role_name r = ''admin'') userRoles then Inr ()
          else if \<not> list_ex (\<lambda>r. permission \<in> set (permissions r)) userRoles
          then Inl (APIError (''Access denied. Missing permission: '' @ permission) 403)
          else Inr ())"

text \<open>\<open>Token.findOne({ token, type })\<close> for a string value, and \<open>tokenDoc.isExpired()\<close>.\<close>

definition Token_findOne :: "db \<Rightarrow> string \<Rightarrow> string \<Rightarrow> token option" where
  "Token_findOne d v ty = find (\<lambda>t. token_value t = v \<and> token_type t = ty) (tokens d)"

definition isExpired :: "int \<Rightarrow> token \<Rightarrow> bool" where
  "isExpired now t = (expiresAt t < now)"

text \<open>\<open>Token.deleteMany({ userId, type })\<close>.\<close>

definition Token_deleteMany :: "db \<Rightarrow> oid \<Rightarrow> string \<Rightarrow> db" where
  "Token_deleteMany d u ty =
     d\<lparr>tokens := filter (\<lambda>t. \<not> (token_userId t = u \<and> token_type t = ty)) (tokens d)\<rparr>"

subsection \<open>JavaScript values\<close>

fun truthy :: "json \<Rightarrow> bool" where
  "truthy JNull = False"
| "truthy (JBool b) = b"
| "truthy (JNum n) = (n \<noteq> 0)"
| "truthy (JStr s) = (s \<noteq> [])"
| "truthy (JArr xs) = True"
| "truthy (JObj kvs) = True"

text \<open>Reading a named property; \<open>None\<close> is \<open>undefined\<close>.\<close>

fun get_prop :: "string \<Rightarrow> json \<Rightarrow> json option" where
  "get_prop k (JObj kvs) = map_of kvs k"
| "get_prop k v = None"

definition digit :: "nat \<Rightarrow> char" where
  "digit n = ''0123456789'' ! (n mod 10)"

function string_of_nat :: "nat \<Rightarrow> string" where
  "string_of_nat n = (if n < 10 then [digit n] else string_of_nat (n div 10) @ [digit n])"
  by pat_completeness auto
termination
  by (relation "measure (\<lambda>n. n)") auto

declare string_of_nat.simps [simp del]

definition string_of_int :: "int \<Rightarrow> string" where
  "string_of_int i = (if i < 0 then CHR ''-'' # string_of_nat (nat (- i)) else string_of_nat (nat i))"

text \<open>
  The value of a String path in a query filter.  A string matches the stored values equal
  to it.  What any other value matches is decided by Mongoose's query cast (a number is
  turned into a string, an array into \<open>$in\<close>, an object is read as query operators or
  refused): \<open>cast_query v\<close> is the predicate on stored strings that \<open>v\<close> stands for, or
  \<open>None\<close> when the cast is refused with a CastError.
\<close>

definition string_query :: "(json \<Rightarrow> (string \<Rightarrow> bool) option) \<Rightarrow> json \<Rightarrow> (string \<Rightarrow> bool) option" where
  "string_query cast_query v = (case v of JStr s \<Rightarrow> Some (\<lambda>x. x = s) | _ \<Rightarrow> cast_query v)"

text \<open>\<open>Token.findOne({ token: v, type })\<close> for a query value that has been cast.\<close>

definition Token_findOne_matching :: "db \<Rightarrow> (string \<Rightarrow> bool) \<Rightarrow> string \<Rightarrow> token option" where
  "Token_findOne_matching d P ty = find (\<lambda>t. P (token_value t) \<and> token_type t = ty) (tokens d)"

text \<open>The value a document's String path takes when it is set: strings as they are,
  numbers and booleans through \<open>toString\<close>; \<open>null\<close> stays \<open>null\<close> (\<open>Inr None\<close>); an array
  or an object is refused (\<open>Inl\<close>), which validation reports for the path on \<open>save\<close>.\<close>

fun document_string :: "json \<Rightarrow> unit + string option" where
  "document_string (JStr s) = Inr (Some s)"
| "document_string (JNum n) = Inr (Some (string_of_int n))"
| "document_string (JBool b) = Inr (Some (if b then ''true'' else ''false''))"
| "document_string JNull = Inr None"
| "document_string v = Inl ()"

text \<open>
  \<open>authenticateRefreshToken\<close>.  The store is returned with the result, as for the
  controllers.  In the expired and the user-missing branch the code calls
  \<open>tokenDoc.delete()\<close>; a document of the Mongoose version the project depends on
  (\<open>^7.5.3\<close>) has no such method, so the call throws a TypeError before anything is
  deleted, and the \<open>catch\<close> block hands it to \<open>next\<close>.
\<close>

definition authenticateRefreshToken ::
  "(json \<Rightarrow> (string \<Rightarrow> bool) option) \<Rightarrow> int \<Rightarrow> db \<Rightarrow> request \<Rightarrow> (error + request) \<times> db" where
  "authenticateRefreshToken cast_query now d req =
     (if req_body req = JNull
      then (Inl (Thrown ''TypeError'' ''Cannot destructure property refreshToken of req.body as it is undefined.''), d)
      else
        (case get_prop ''refreshToken'' (req_body req) of
           None \<Rightarrow> (Inl (APIError ''Refresh token is required.'' 400), d)
         | Some v \<Rightarrow>
             if \<not> truthy v then (Inl (APIError ''Refresh token is required.'' 400), d)
             else
               (case string_query cast_query v of
                  None \<Rightarrow> (Inl (CastError ''token'' v), d)
                | Some refreshToken \<Rightarrow>
                    (case Token_findOne_matching d refreshToken ''refresh'' of
                       None \<Rightarrow> (Inl (APIError ''Invalid refresh token.'' 401), d)
                     | Some tokenDoc \<Rightarrow>
                         if isExpired now tokenDoc
                         then (Inl (Thrown ''TypeError'' ''tokenDoc.delete is not a function''), d)
                         else
                           (case User_findById d (token_userId tokenDoc) of
                              None \<Rightarrow> (Inl (Thrown ''TypeError'' ''tokenDoc.delete is not a function''), d)
                            | Some u \<Rightarrow>
                                if user_status u \<noteq> ''active''
                                then (Inl (APIError ''User account is not active.'' 403), d)
                                else
                                  (let req1 = req\<lparr>req_user := Some u, req_token := Some tokenDoc\<rparr>
                                   in (Inr (case metadata_serviceId tokenDoc of
                                              None \<Rightarrow> req1
                                            | Some sid \<Rightarrow>
                                                (case Service_findById d sid of
                                                   None \<Rightarrow> req1
                                                 | Some s \<Rightarrow>
                                                     if active s then req1\<lparr>req_service := Some s\<rparr>
                                                     else req1)), d)))))))"

section \<open>user.controller.js\<close>

text \<open>What a controller sends with \<open>res.status(c).json(data)\<close>.\<close>

record response =
  res_statusCode :: nat
  res_data :: json

text \<open>\<open>generateToken\<close>: the signing function stands for \<open>jwt.sign\<close> with the secret and the
  lifetime of the environment.\<close>

definition generateToken :: "(jwt_payload \<Rightarrow> string) \<Rightarrow> user \<Rightarrow> oid option \<Rightarrow> string" where
  "generateToken jwt_sign u serviceId =
     jwt_sign \<lparr>jwt_id = user_id u, jwt_username = username u, jwt_serviceId = serviceId\<rparr>"

text \<open>\<open>refreshToken\<close>: the controller behind \<open>authenticateRefreshToken\<close>.  It reads the
  user and the service of the request and touches no collection.\<close>

definition refreshToken :: "(jwt_payload \<Rightarrow> string) \<Rightarrow> request \<Rightarrow> error + response" where
  "refreshToken jwt_sign req =
     (case req_user req of
        None \<Rightarrow> Inl (Thrown ''TypeError'' ''Cannot read properties of undefined (reading _id)'')
      | Some u \<Rightarrow>
          Inr \<lparr>res_statusCode = 200,
               res_data = JObj [(''success'', JBool True),
                                (''token'', JStr (generateToken jwt_sign u
                                                    (map_option service_id (req_service req)))),
                                (''user'', JObj [(''_id'', JNum (int (user_id u))),
                                                 (''username'', JStr (username u)),
                                                 (''email'', JStr (email u)),
                                                 (''displayName'', JStr (displayName u))])]\<rparr>)"

text \<open>\<open>user.save()\<close> after \<open>user.password = newPassword\<close>: validation sees the new plain
  value (a value that could be cast, required, at least 8 characters), the pre-save hook
  replaces a modified password by its hash, and the document takes the place of the
  stored one.\<close>

definition User_save_password ::
  "(string \<Rightarrow> string) \<Rightarrow> int \<Rightarrow> db \<Rightarrow> user \<Rightarrow> unit + string option \<Rightarrow> error + db" where
  "User_save_password bcrypt_hash now d u newPassword =
     (case newPassword of
        Inl refused \<Rightarrow> Inl (ValidationError ''User validation failed: password: Cast to string failed''
                            [''Cast to string failed''])
      | Inr None \<Rightarrow> Inl (ValidationError ''User validation failed: password: Password is required''
                           [''Password is required''])
      | Inr (Some pw) \<Rightarrow>
          if pw = [] then Inl (ValidationError ''User validation failed: password: Password is required''
                                 [''Password is required''])
          else if length pw < 8
          then Inl (ValidationError
                      ''User validation failed: password: Password must be at least 8 characters long''
                      [''Password must be at least 8 characters long''])
          else
            (let u' = u\<lparr>password := (if pw = password u then password u else bcrypt_hash pw),
                        user_updatedAt := now\<rparr>
             in Inr (d\<lparr>users := map (\<lambda>x. if user_id x = user_id u then u' else x) (users d)\<rparr>)))"

definition changePassword ::
  "(string \<Rightarrow> string \<Rightarrow> bool) \<Rightarrow> (string \<Rightarrow> string) \<Rightarrow> int \<Rightarrow> db \<Rightarrow> request
     \<Rightarrow> (error + response) \<times> db" where
  "changePassword bcrypt_compare bcrypt_hash now d req =
     (if req_body req = JNull
      then (Inl (Thrown ''TypeError'' ''Cannot destructure property currentPassword of req.body as it is undefined.''), d)
      else
        (case req_user req of
           None \<Rightarrow> (Inl (Thrown ''TypeError'' ''Cannot read properties of undefined (reading _id)''), d)
         | Some ru \<Rightarrow>
             (case User_findById d (user_id ru) of
                None \<Rightarrow> (Inl (APIError ''User not found'' 404), d)
              | Some u \<Rightarrow>
                  (case get_prop ''currentPassword'' (req_body req) of
                     Some (JStr currentPassword) \<Rightarrow>
                       if \<not> bcrypt_compare currentPassword (password u)
                       then (Inl (APIError ''Current password is incorrect'' 401), d)
                       else
                         (case User_save_password bcrypt_hash now d u
                                 (case get_prop ''newPassword'' (req_body req) of
                                    None \<Rightarrow> Inr None | Some v \<Rightarrow> document_string v) of
                            Inl e \<Rightarrow> (Inl e, d)
                          | Inr d' \<Rightarrow>
                              (Inr \<lparr>res_statusCode = 200,
                                    res_data = JObj [(''success'', JBool True),
                                                     (''message'', JStr ''Password changed successfully'')]\<rparr>,
                               Token_deleteMany d' (user_id u) ''refresh''))
                   | _ \<Rightarrow> (Inl (Thrown ''Error'' ''Error: Illegal arguments''), d)))))"

section \<open>role.controller.js\<close>

text \<open>\<open>UserService.countDocuments({ roles: role._id })\<close>: the relationships whose \<open>roles\<close>
  array holds the identifier.\<close>

definition UserService_countDocuments_role :: "db \<Rightarrow> oid \<Rightarrow> nat" where
  "UserService_countDocuments_role d rid =
     length (filter (\<lambda>g. rid \<in> set (us_roles g)) (userServices d))"

definition Role_deleteOne :: "db \<Rightarrow> role \<Rightarrow> db" where
  "Role_deleteOne d r = d\<lparr>roles := filter (\<lambda>x. role_id x \<noteq> role_id r) (roles d)\<rparr>"

definition deleteRole :: "db \<Rightarrow> oid \<Rightarrow> (error + response) \<times> db" where
  "deleteRole d rid =
     (case Role_findById d rid of
        None \<Rightarrow> (Inl (APIError ''Role not found'' 404), d)
      | Some r \<Rightarrow>
          if role_name r = ''admin'' \<and> isGlobal r
          then (Inl (APIError ''Cannot delete the global admin role'' 403), d)
          else if role_name r = ''user'' \<and> isGlobal r
          then (Inl (APIError ''Cannot delete the global user role'' 403), d)
          else
            (let usersWithRole = UserService_countDocuments_role d (role_id r)
             in if usersWithRole > 0
                then (Inl (APIError (''Cannot delete role '' @ [CHR 0x27] @ role_name r @ [CHR 0x27]
                                      @ '' because it is assigned to '' @ string_of_nat usersWithRole
                                      @ '' users'') 400), d)
                else (Inr \<lparr>res_statusCode = 200,
                           res_data = JObj [(''success'', JBool True),
                                            (''message'', JStr ''Role deleted successfully'')]\<rparr>,
                      Role_deleteOne d r)))"

section \<open>userService.controller.js\<close>

text \<open>
  The body of \<open>POST /user-services\<close>.  An identifier field is \<open>None\<close> when
  \<open>mongoose.Types.ObjectId.isValid\<close> refuses it (\<open>null\<close>, missing, or malformed), else the
  ObjectId it denotes.
\<close>

record assign_body =
  ab_userId :: "oid option"
  ab_serviceId :: "oid option"
  ab_roles :: "oid list option"
  ab_status :: "string option"

text \<open>\<open>Role.find({ _id: { $in: roles }, $or: [{ serviceId }, { isGlobal: true }] })\<close>.\<close>

definition Role_find_valid :: "db \<Rightarrow> oid list \<Rightarrow> oid \<Rightarrow> role list" where
  "Role_find_valid d ids serviceId =
     filter (\<lambda>r. role_id r \<in> set ids \<and> (role_serviceId r = Some serviceId \<or> isGlobal r)) (roles d)"

text \<open>The key of the unique index \<open>{ userId: 1, serviceId: 1 }\<close> of the collection.\<close>

definition grant_keys :: "db \<Rightarrow> (oid \<times> oid option) list" where
  "grant_keys d = map (\<lambda>g. (us_userId g, us_serviceId g)) (userServices d)"

text \<open>Saving a new UserService document: the \<open>status\<close> enum is validated, and the unique
  index on \<open>(userId, serviceId)\<close> refuses a second document for a pair, \<open>null\<close> being a
  key value like any other.\<close>

definition UserService_save :: "db \<Rightarrow> userService \<Rightarrow> error + db" where
  "UserService_save d g =
     (if us_status g \<noteq> ''active'' \<and> us_status g \<noteq> ''suspended''
      then Inl (ValidationError ''UserService validation failed: status''
                  [''`'' @ us_status g @ ''` is not a valid enum value for path `status`.''])
      else if list_ex (\<lambda>x. us_userId x = us_userId g \<and> us_serviceId x = us_serviceId g)
                (userServices d)
      then Inl (DuplicateKey ''userId'' (string_of_nat (us_userId g)))
      else Inr (d\<lparr>userServices := userServices d @ [g]\<rparr>))"

text \<open>The created document as the response shows it, after
  \<open>populate\<close> of \<open>userId\<close>, \<open>serviceId\<close> and \<open>roles\<close> with the selected fields the records hold.\<close>

definition populated_json :: "db \<Rightarrow> user \<Rightarrow> service \<Rightarrow> userService \<Rightarrow> json" where
  "populated_json d u s g =
     JObj [(''_id'', JNum (int (us_id g))),
           (''userId'', JObj [(''_id'', JNum (int (user_id u))),
                              (''username'', JStr (username u)),
                              (''email'', JStr (email u)),
                              (''displayName'', JStr (displayName u))]),
           (''serviceId'', JObj [(''_id'', JNum (int (service_id s))),
                                 (''name'', JStr (service_name s))]),
           (''roles'', JArr (map (\<lambda>r. JObj [(''_id'', JNum (int (role_id r))),
                                             (''name'', JStr (role_name r))])
                              (populate_roles d (us_roles g)))),
           (''status'', JStr (us_status g))]"

definition assignUserToService :: "oid \<Rightarrow> db \<Rightarrow> assign_body \<Rightarrow> (error + response) \<times> db" where
  "assignUserToService new_id d body =
     (case ab_userId body of
        None \<Rightarrow> (Inl (APIError ''Invalid user ID'' 400), d)
      | Some userId \<Rightarrow>
          (case ab_serviceId body of
             None \<Rightarrow> (Inl (APIError ''Invalid service ID'' 400), d)
           | Some serviceId \<Rightarrow>
               (case User_findById d userId of
                  None \<Rightarrow> (Inl (APIError ''User not found'' 404), d)
                | Some u \<Rightarrow>
                    (case Service_findById d serviceId of
                       None \<Rightarrow> (Inl (APIError ''Service not found'' 404), d)
                     | Some s \<Rightarrow>
                         (case UserService_findOne d userId (Some serviceId) of
                            Some existingAssignment \<Rightarrow>
                              (Inl (APIError ''User is already assigned to this service'' 400), d)
                          | None \<Rightarrow>
                              (let rs = (case ab_roles body of None \<Rightarrow> [] | Some xs \<Rightarrow> xs)
                               in if rs \<noteq> [] \<and> length (Role_find_valid d rs serviceId) \<noteq> length rs
                                  then (Inl (APIError ''One or more roles are invalid or do not belong to this service'' 400), d)
                                  else
                                    (let g = \<lparr>us_id = new_id, us_userId = userId,
                                               us_serviceId = Some serviceId, us_roles = rs,
                                               us_status = (case ab_status body of
                                                              None \<Rightarrow> ''active''
                                                            | Some st \<Rightarrow> if st = [] then ''active'' else st)\<rparr>
                                     in case UserService_save d g of
                                          Inl e \<Rightarrow> (Inl e, d)
                                        | Inr d' \<Rightarrow>
                                            (Inr \<lparr>res_statusCode = 201,
                                                  res_data = JObj [(''success'', JBool True),
                                                    (''message'', JStr ''User assigned to service successfully''),
                                                    (''userService'', populated_json d' u s g)]\<rparr>,
                                             d'))))))))"

section \<open>A sample store\<close>

definition ex_admin_role :: role where
  "ex_admin_role = \<lparr>role_id = 100, role_name = ''admin'', isGlobal = True, role_serviceId = None,
     permissions = [''user:read'', ''user:write'', ''user:delete'', ''role:read'', ''role:write'',
                    ''service:read'', ''service:write'']\<rparr>"

definition ex_user_role :: role where
  "ex_user_role = \<lparr>role_id = 101, role_name = ''user'', isGlobal = True, role_serviceId = None,
     permissions = [''user:read'']\<rparr>"

definition ex_tenant_admin_role :: role where
  "ex_tenant_admin_role = \<lparr>role_id = 102, role_name = ''admin'', isGlobal = False,
     role_serviceId = Some 10, permissions = []\<rparr>"

definition ex_editor_role :: role where
  "ex_editor_role = \<lparr>role_id = 103, role_name = ''editor'', isGlobal = False,
     role_serviceId = Some 10, permissions = [''doc:write'']\<rparr>"

definition ex_alice :: user where
  "ex_alice = \<lparr>user_id = 1, username = ''alice'', email = ''alice@x.com'', password = ''hash(old-secret)'',
     displayName = ''Alice'', isEmailVerified = True, user_status = ''active'', user_updatedAt = 0\<rparr>"

definition ex_bob :: user where
  "ex_bob = \<lparr>user_id = 2, username = ''bob'', email = ''bob@x.com'', password = ''hash(bobs-secret)'',
     displayName = ''Bob'', isEmailVerified = False, user_status = ''pending'', user_updatedAt = 0\<rparr>"

definition ex_carol :: user where
  "ex_carol = \<lparr>user_id = 3, username = ''carol'', email = ''carol@x.com'', password = ''hash(carols-secret)'',
     displayName = ''Carol'', isEmailVerified = True, user_status = ''active'', user_updatedAt = 0\<rparr>"

definition ex_billing :: service where
  "ex_billing = \<lparr>service_id = 10, service_name = ''billing'', apiKey = ''toc_billing_01'',
     apiSecret = ''toc_s3cr3t'', active = True\<rparr>"

definition ex_legacy :: service where
  "ex_legacy = \<lparr>service_id = 11, service_name = ''legacy'', apiKey = ''toc_legacy_02'',
     apiSecret = ''toc_0ld'', active = False\<rparr>"

definition ex_reports :: service where
  "ex_reports = \<lparr>service_id = 12, service_name = ''reports'', apiKey = ''toc_reports_03'',
     apiSecret = ''toc_r3p'', active = True\<rparr>"

definition ex_grants :: "userService list" where
  "ex_grants =
     [\<lparr>us_id = 200, us_userId = 1, us_serviceId = None, us_roles = [100], us_status = ''active''\<rparr>,
      \<lparr>us_id = 201, us_userId = 1, us_serviceId = Some 10, us_roles = [103], us_status = ''suspended''\<rparr>,
      \<lparr>us_id = 202, us_userId = 3, us_serviceId = Some 10, us_roles = [102], us_status = ''active''\<rparr>,
      \<lparr>us_id = 203, us_userId = 3, us_serviceId = Some 11, us_roles = [101, 103], us_status = ''suspended''\<rparr>]"

definition ex_tokens :: "token list" where
  "ex_tokens =
     [\<lparr>token_id = 300, token_userId = 1, token_value = ''rt-alice-1'', token_type = ''refresh'',
       expiresAt = 1000, metadata_serviceId = None, metadata_deviceInfo = [], metadata_ipAddress = []\<rparr>,
      \<lparr>token_id = 301, token_userId = 1, token_value = ''rt-alice-2'', token_type = ''refresh'',
       expiresAt = 9000, metadata_serviceId = None, metadata_deviceInfo = [], metadata_ipAddress = []\<rparr>,
      \<lparr>token_id = 302, token_userId = 1, token_value = ''vt-alice'', token_type = ''verification'',
       expiresAt = 9000, metadata_serviceId = None, metadata_deviceInfo = [], metadata_ipAddress = []\<rparr>,
      \<lparr>token_id = 303, token_userId = 3, token_value = ''rt-carol'', token_type = ''refresh'',
       expiresAt = 9000, metadata_serviceId = Some 10, metadata_deviceInfo = [], metadata_ipAddress = []\<rparr>]"

definition ex_db :: db where
  "ex_db = \<lparr>users = [ex_alice, ex_bob, ex_carol],
            services = [ex_billing, ex_legacy, ex_reports],
            roles = [ex_admin_role, ex_user_role, ex_tenant_admin_role, ex_editor_role],
            userServices = ex_grants, tokens = ex_tokens, auditLogs = []\<rparr>"

text \<open>A verifier that knows a handful of access tokens.\<close>

definition ex_verify :: "string \<Rightarrow> jwt_result" where
  "ex_verify tok =
     (if tok = ''alice'' then Decoded \<lparr>jwt_id = 1, jwt_username = ''alice'', jwt_serviceId = None\<rparr>
      else if tok = ''alice@billing''
        then Decoded \<lparr>jwt_id = 1, jwt_username = ''alice'', jwt_serviceId = Some 10\<rparr>
      else if tok = ''alice@reports''
        then Decoded \<lparr>jwt_id = 1, jwt_username = ''alice'', jwt_serviceId = Some 12\<rparr>
      else if tok = ''bob'' then Decoded \<lparr>jwt_id = 2, jwt_username = ''bob'', jwt_serviceId = None\<rparr>
      else if tok = ''carol'' then Decoded \<lparr>jwt_id = 3, jwt_username = ''carol'', jwt_serviceId = None\<rparr>
      else if tok = ''carol@billing''
        then Decoded \<lparr>jwt_id = 3, jwt_username = ''carol'', jwt_serviceId = Some 10\<rparr>
      else if tok = ''carol@legacy''
        then Decoded \<lparr>jwt_id = 3, jwt_username = ''carol'', jwt_serviceId = Some 11\<rparr>
      else if tok = ''carol@gone''
        then Decoded \<lparr>jwt_id = 3, jwt_username = ''carol'', jwt_serviceId = Some 99\<rparr>
      else if tok = ''dave'' then Decoded \<lparr>jwt_id = 4, jwt_username = ''dave'', jwt_serviceId = None\<rparr>
      else if tok = ''stale'' then JwtThrows ''TokenExpiredError'' ''jwt expired''
      else JwtThrows ''JsonWebTokenError'' ''jwt malformed'')"

definition ex_sign :: "jwt_payload \<Rightarrow> string" where
  "ex_sign p = jwt_username p @ (case jwt_serviceId p of None \<Rightarrow> [] | Some s \<Rightarrow> ''@'' @ string_of_nat s)"

text \<open>A request that carries the given access token and body.\<close>

definition ex_request :: "string \<Rightarrow> json \<Rightarrow> request" where
  "ex_request tok body =
     \<lparr>req_headers = [(''authorization'', ''Bearer '' @ tok), (''user-agent'', ''curl/8'')],
      req_method = ''POST'', req_path = ''/'', req_params = [], req_query = [], req_body = body,
      req_user = None, req_service = None, req_userService = None,
      req_userRoles = None, req_token = None\<rparr>"

text \<open>Stand-ins for bcrypt and for the query cast (one that refuses every value that is
  not a string).\<close>

definition ex_cast_query :: "json \<Rightarrow> (string \<Rightarrow> bool) option" where
  "ex_cast_query v = None"

definition ex_hash :: "string \<Rightarrow> string" where
  "ex_hash pw = ''hash('' @ pw @ '')''"

definition ex_compare :: "string \<Rightarrow> string \<Rightarrow> bool" where
  "ex_compare pw h = (h = ex_hash pw)"

text \<open>A request to a public route, with no \<open>Authorization\<close> header.\<close>

definition ex_public_request :: "string \<Rightarrow> json \<Rightarrow> request" where
  "ex_public_request path body =
     \<lparr>req_headers = [(''user-agent'', ''curl/8'')],
      req_method = ''POST'', req_path = path, req_params = [], req_query = [], req_body = body,
      req_user = None, req_service = None, req_userService = None,
      req_userRoles = None, req_token = None\<rparr>"

definition ex_refresh_request :: request where
  "ex_refresh_request =
     ex_public_request ''/refresh-token'' (JObj [(''refreshToken'', JStr ''rt-alice-2'')])"

text \<open>Alice, authenticated, asks for a new password.\<close>

definition ex_change_request :: request where
  "ex_change_request =
     (ex_request ''alice'' (JObj [(''currentPassword'', JStr ''old-secret''),
                                  (''newPassword'', JStr ''New-secret1''),
                                  (''confirmPassword'', JStr ''New-secret1'')]))
       \<lparr>req_method := ''PUT'', req_path := ''/change-password'', req_user := Some ex_alice\<rparr>"

text \<open>The sample store without any relationship.\<close>

definition ex_db_no_grants :: db where
  "ex_db_no_grants = ex_db\<lparr>userServices := []\<rparr>"

section \<open>Unfolding sets\<close>

lemmas ex_defs = ex_admin_role_def ex_user_role_def ex_tenant_admin_role_def ex_editor_role_def
  ex_alice_def ex_bob_def ex_carol_def ex_billing_def ex_legacy_def ex_reports_def ex_grants_def
  ex_tokens_def ex_db_def ex_verify_def ex_request_def ex_cast_query_def ex_hash_def
  ex_compare_def ex_public_request_def ex_refresh_request_def
  ex_change_request_def ex_db_no_grants_def ex_sign_def

section \<open>Helper lemmas\<close>

lemma find_Some_pred: "find P xs = Some x \<Longrightarrow> P x \<and> x \<in> set xs"
  by (induction xs) (auto split: if_splits)

lemma find_None_all: "find P xs = None \<longleftrightarrow> (\<forall>x\<in>set xs. \<not> P x)"
  by (induction xs) auto

lemma User_findById_id: "User_findById d i = Some u \<Longrightarrow> user_id u = i \<and> u \<in> set (users d)"
  unfolding User_findById_def by (drule find_Some_pred) simp

lemma Service_findById_id: "Service_findById d i = Some s \<Longrightarrow> service_id s = i"
  unfolding Service_findById_def by (drule find_Some_pred) simp

lemma Role_findById_id: "Role_findById d i = Some r \<Longrightarrow> role_id r = i \<and> r \<in> set (roles d)"
  unfolding Role_findById_def by (drule find_Some_pred) simp

lemma authenticate_verified:
  "bearer_token req = Inr tok \<Longrightarrow> jwt_verify tok = Decoded p \<Longrightarrow>
   authenticate jwt_verify d req = authenticate_decoded d req p"
  by (simp add: authenticate_def)

lemma authenticate_Inr_verified:
  "authenticate jwt_verify d req = Inr req' \<Longrightarrow>
   \<exists>tok p. bearer_token req = Inr tok \<and> jwt_verify tok = Decoded p
           \<and> authenticate_decoded d req p = Inr req'"
  by (auto simp: authenticate_def split: sum.splits jwt_result.splits)

lemma authenticate_decoded_Inr:
  assumes "authenticate_decoded d req p = Inr req'"
  shows "\<exists>u. User_findById d (jwt_id p) = Some u \<and> user_status u = ''active''
             \<and> req_user req' = Some u
             \<and> (\<forall>sid. jwt_serviceId p = Some sid \<longrightarrow>
                  (\<exists>s g. Service_findById d sid = Some s \<and> active s
                         \<and> UserService_findOne d (user_id u) (Some sid) = Some g
                         \<and> us_status g = ''active''))"
proof -
  from assms obtain u where u: "User_findById d (jwt_id p) = Some u"
    by (auto simp: authenticate_decoded_def split: option.splits)
  with assms have act: "user_status u = ''active''"
    by (auto simp: authenticate_decoded_def split: option.splits if_splits)
  show ?thesis
  proof (cases "jwt_serviceId p")
    case None
    with assms u act show ?thesis
      by (auto simp: authenticate_decoded_def)
  next
    case (Some sid)
    with assms u act obtain s where s: "Service_findById d sid = Some s" "active s"
      by (auto simp: authenticate_decoded_def split: option.splits if_splits)
    from s have sid: "service_id s = sid" by (simp add: Service_findById_id)
    from assms u act Some s sid
    obtain g where "UserService_findOne d (user_id u) (Some sid) = Some g" "us_status g = ''active''"
      by (auto simp: authenticate_decoded_def split: option.splits if_splits)
    with assms u act Some s sid show ?thesis
      by (auto simp: authenticate_decoded_def)
  qed
qed

lemma authenticate_guards_verified:
  assumes "bearer_token req = Inr tok" and "jwt_verify tok = Decoded p"
  shows
    "(User_findById d (jwt_id p) = None \<longrightarrow>
        authenticate jwt_verify d req = Inl (APIError ''User not found or token is invalid.'' 401))
   \<and> (\<forall>u. User_findById d (jwt_id p) = Some u \<and> user_status u \<noteq> ''active'' \<longrightarrow>
        authenticate jwt_verify d req = Inl (APIError ''User account is not active.'' 403))
   \<and> (\<forall>u sid. User_findById d (jwt_id p) = Some u \<and> user_status u = ''active''
          \<and> jwt_serviceId p = Some sid \<longrightarrow>
        (Service_findById d sid = None \<longrightarrow>
           authenticate jwt_verify d req
             = Inl (APIError ''Service not found or token is invalid.'' 401))
      \<and> (\<forall>s. Service_findById d sid = Some s \<and> \<not> active s \<longrightarrow>
           authenticate jwt_verify d req = Inl (APIError ''Service is not active.'' 403))
      \<and> (\<forall>s. Service_findById d sid = Some s \<and> active s
              \<and> UserService_findOne d (user_id u) (Some sid) = None \<longrightarrow>
           authenticate jwt_verify d req
             = Inl (APIError ''User does not have access to this service.'' 403))
      \<and> (\<forall>s g. Service_findById d sid = Some s \<and> active s
              \<and> UserService_findOne d (user_id u) (Some sid) = Some g
              \<and> us_status g \<noteq> ''active'' \<longrightarrow>
           authenticate jwt_verify d req
             = Inl (APIError ''User access to this service is not active.'' 403)))
   \<and> (\<forall>req'. authenticate jwt_verify d req = Inr req' \<longrightarrow>
        (\<exists>u. User_findById d (jwt_id p) = Some u \<and> user_status u = ''active''
            \<and> req_user req' = Some u
            \<and> (\<forall>sid. jwt_serviceId p = Some sid \<longrightarrow>
                 (\<exists>s g. Service_findById d sid = Some s \<and> active s
                        \<and> UserService_findOne d (user_id u) (Some sid) = Some g
                        \<and> us_status g = ''active''))))"
proof -
  have eq: "authenticate jwt_verify d req = authenticate_decoded d req p"
    using assms by (rule authenticate_verified)
  have a: "User_findById d (jwt_id p) = None \<longrightarrow>
        authenticate_decoded d req p = Inl (APIError ''User not found or token is invalid.'' 401)"
    by (simp add: authenticate_decoded_def)
  have b: "\<forall>u. User_findById d (jwt_id p) = Some u \<and> user_status u \<noteq> ''active'' \<longrightarrow>
        authenticate_decoded d req p = Inl (APIError ''User account is not active.'' 403)"
    by (simp add: authenticate_decoded_def)
  have c: "\<forall>u sid. User_findById d (jwt_id p) = Some u \<and> user_status u = ''active''
          \<and> jwt_serviceId p = Some sid \<longrightarrow>
        (Service_findById d sid = None \<longrightarrow>
           authenticate_decoded d req p
             = Inl (APIError ''Service not found or token is invalid.'' 401))
      \<and> (\<forall>s. Service_findById d sid = Some s \<and> \<not> active s \<longrightarrow>
           authenticate_decoded d req p = Inl (APIError ''Service is not active.'' 403))
      \<and> (\<forall>s. Service_findById d sid = Some s \<and> active s
              \<and> UserService_findOne d (user_id u) (Some sid) = None \<longrightarrow>
           authenticate_decoded d req p
             = Inl (APIError ''User does not have access to this service.'' 403))
      \<and> (\<forall>s g. Service_findById d sid = Some s \<and> active s
              \<and> UserService_findOne d (user_id u) (Some sid) = Some g
              \<and> us_status g \<noteq> ''active'' \<longrightarrow>
           authenticate_decoded d req p
             = Inl (APIError ''User access to this service is not active.'' 403))"
    by (auto simp: authenticate_decoded_def dest: Service_findById_id)
  have e: "\<forall>req'. authenticate_decoded d req p = Inr req' \<longrightarrow>
        (\<exists>u. User_findById d (jwt_id p) = Some u \<and> user_status u = ''active''
            \<and> req_user req' = Some u
            \<and> (\<forall>sid. jwt_serviceId p = Some sid \<longrightarrow>
                 (\<exists>s g. Service_findById d sid = Some s \<and> active s
                        \<and> UserService_findOne d (user_id u) (Some sid) = Some g
                        \<and> us_status g = ''active'')))"
    using authenticate_decoded_Inr by blast
  from a b c e show ?thesis unfolding eq by blast
qed

lemmas auth_defs = authenticate_def bearer_token_def startsWith_def authenticate_decoded_def
  User_findById_def Service_findById_def UserService_findOne_def Role_findById_def
  populate_roles_def List.map_filter_def UserService_distinct_roles_def Role_find_global_in_def
  authenticate_catch_def

lemma set_distinct_roles:
  "set (UserService_distinct_roles d u)
     = {i. \<exists>g\<in>set (userServices d). us_userId g = u \<and> i \<in> set (us_roles g)}"
  by (auto simp: UserService_distinct_roles_def)

lemma Token_findOne_matching_eq:
  "Token_findOne_matching d (\<lambda>x. x = v) ty = Token_findOne d v ty"
  by (simp add: Token_findOne_matching_def Token_findOne_def)

lemma authenticateRefreshToken_store:
  "snd (authenticateRefreshToken cast_query now d req) = d"
  by (auto simp: authenticateRefreshToken_def Let_def split: option.splits)

lemma authenticateRefreshToken_success:
  assumes "get_prop ''refreshToken'' (req_body req) = Some (JStr v)" and "v \<noteq> []"
    and "Token_findOne d v ''refresh'' = Some t" and "\<not> isExpired now t"
    and "User_findById d (token_userId t) = Some u" and "user_status u = ''active''"
  shows "\<exists>req'. authenticateRefreshToken cast_query now d req = (Inr req', d)
           \<and> req_user req' = Some u \<and> req_token req' = Some t"
proof -
  have nn: "req_body req \<noteq> JNull" using assms(1) by auto
  show ?thesis
    using assms nn
    by (auto simp: authenticateRefreshToken_def string_query_def Token_findOne_matching_eq Let_def
        split: option.splits)
qed

lemma refreshToken_issues:
  "req_user req' = Some u \<Longrightarrow>
     \<exists>resp sid. refreshToken jwt_sign req' = Inr resp \<and> res_statusCode resp = 200
        \<and> get_prop ''token'' (res_data resp) = Some (JStr (generateToken jwt_sign u sid))"
  by (auto simp: refreshToken_def)

lemma User_save_password_tokens:
  "User_save_password h now d u pw = Inr d1 \<Longrightarrow> tokens d1 = tokens d"
  by (auto simp: User_save_password_def Let_def split: option.splits sum.splits if_splits)

lemma changePassword_success:
  assumes "changePassword cmp h now d req = (Inr r, d')" and "req_user req = Some ru"
  shows "\<exists>d1. tokens d1 = tokens d \<and> d' = Token_deleteMany d1 (user_id ru) ''refresh''"
proof -
  from assms obtain u where u: "User_findById d (user_id ru) = Some u"
    by (auto simp: changePassword_def split: if_splits option.splits)
  then have uid: "user_id u = user_id ru" by (simp add: User_findById_id)
  from assms u obtain cur where cur: "get_prop ''currentPassword'' (req_body req) = Some (JStr cur)"
    by (auto simp: changePassword_def split: if_splits option.splits json.splits)
  from assms u cur obtain d1 where
    s: "User_save_password h now d u
          (case get_prop ''newPassword'' (req_body req) of
             None \<Rightarrow> Inr None | Some v \<Rightarrow> document_string v)
        = Inr d1"
    and d': "d' = Token_deleteMany d1 (user_id u) ''refresh''"
    by (auto simp: changePassword_def split: if_splits sum.splits)
  from User_save_password_tokens [OF s] d' uid show ?thesis by auto
qed

lemma UserService_save_Inr:
  "UserService_save d g = Inr d' \<Longrightarrow>
     d' = d\<lparr>userServices := userServices d @ [g]\<rparr>
     \<and> (us_userId g, us_serviceId g) \<notin> set (grant_keys d)"
  by (auto simp: UserService_save_def grant_keys_def list_ex_iff split: if_splits)

lemma UserService_save_distinct:
  "distinct (grant_keys d) \<Longrightarrow> UserService_save d g = Inr d' \<Longrightarrow> distinct (grant_keys d')"
  by (drule UserService_save_Inr) (auto simp: grant_keys_def)

lemma assignUserToService_store:
  "snd (assignUserToService new_id d body) = d
   \<or> (\<exists>g. UserService_save d g = Inr (snd (assignUserToService new_id d body)))"
  by (auto simp: assignUserToService_def Let_def split: option.splits sum.splits)

lemma UserService_findOne_existing:
  "g \<in> set (userServices d) \<Longrightarrow> us_userId g = u \<Longrightarrow> us_serviceId g = s \<Longrightarrow>
     \<exists>g'. UserService_findOne d u s = Some g'"
  unfolding UserService_findOne_def
  by (cases "find (\<lambda>g. us_userId g = u \<and> us_serviceId g = s) (userServices d)")
     (auto simp: find_None_all)

lemma count_pos_iff:
  "UserService_countDocuments_role d rid > 0 \<longleftrightarrow> (\<exists>g\<in>set (userServices d). rid \<in> set (us_roles g))"
  by (auto simp: UserService_countDocuments_role_def filter_empty_conv)

lemma Role_findById_filtered:
  "Role_findById (d\<lparr>roles := filter (\<lambda>x. role_id x \<noteq> rid) (roles d)\<rparr>) rid = None"
  by (simp add: Role_findById_def find_None_all)

section \<open>Authentication guards (C1)\<close>

text \<open>
  Claim C1, as the code has it.  \<open>authenticate\<close> succeeds only when the request carries a
  bearer token that verifies, the embedded principal has a user document whose status is
  \<open>active\<close> and, for a token with a service identifier, the service exists and is active
  and the user has a relationship with it whose status is \<open>active\<close>.  Once the token is
  verified it fails with 401 when the principal has no user document and with 403 when
  the user is not active; with a service identifier it fails with 401 when that service
  does not exist, with 403 when the service is not active, with 403 when the user has no
  relationship with the service, and with 403 when that relationship is not active.
\<close>

theorem C1_authenticate_guards:
  "(\<forall>req'. authenticate jwt_verify d req = Inr req' \<longrightarrow>
      (\<exists>tok p u. bearer_token req = Inr tok \<and> jwt_verify tok = Decoded p
          \<and> User_findById d (jwt_id p) = Some u \<and> user_status u = ''active''
          \<and> req_user req' = Some u
          \<and> (\<forall>sid. jwt_serviceId p = Some sid \<longrightarrow>
                (\<exists>s g. Service_findById d sid = Some s \<and> active s
                       \<and> UserService_findOne d (user_id u) (Some sid) = Some g
                       \<and> us_status g = ''active''))))
   \<and> (\<forall>tok p. bearer_token req = Inr tok \<and> jwt_verify tok = Decoded p \<longrightarrow>
      (User_findById d (jwt_id p) = None \<longrightarrow>
              authenticate jwt_verify d req = Inl (APIError ''User not found or token is invalid.'' 401))
         \<and> (\<forall>u. User_findById d (jwt_id p) = Some u \<and> user_status u \<noteq> ''active'' \<longrightarrow>
              authenticate jwt_verify d req = Inl (APIError ''User account is not active.'' 403))
         \<and> (\<forall>u sid. User_findById d (jwt_id p) = Some u \<and> user_status u = ''active''
                \<and> jwt_serviceId p = Some sid \<longrightarrow>
              (Service_findById d sid = None \<longrightarrow>
                 authenticate jwt_verify d req
                   = Inl (APIError ''Service not found or token is invalid.'' 401))
            \<and> (\<forall>s. Service_findById d sid = Some s \<and> \<not> active s \<longrightarrow>
                 authenticate jwt_verify d req = Inl (APIError ''Service is not active.'' 403))
            \<and> (\<forall>s. Service_findById d sid = Some s \<and> active s
                    \<and> UserService_findOne d (user_id u) (Some sid) = None \<longrightarrow>
                 authenticate jwt_verify d req
                   = Inl (APIError ''User does not have access to this service.'' 403))
            \<and> (\<forall>s g. Service_findById d sid = Some s \<and> active s
                    \<and> UserService_findOne d (user_id u) (Some sid) = Some g
                    \<and> us_status g \<noteq> ''active'' \<longrightarrow>
                 authenticate jwt_verify d req
                   = Inl (APIError ''User access to this service is not active.'' 403))))"
proof -
  have only_when: "\<exists>tok p u. bearer_token req = Inr tok \<and> jwt_verify tok = Decoded p
          \<and> User_findById d (jwt_id p) = Some u \<and> user_status u = ''active''
          \<and> req_user req' = Some u
          \<and> (\<forall>sid. jwt_serviceId p = Some sid \<longrightarrow>
                (\<exists>s g. Service_findById d sid = Some s \<and> active s
                       \<and> UserService_findOne d (user_id u) (Some sid) = Some g
                       \<and> us_status g = ''active''))"
    if "authenticate jwt_verify d req = Inr req'" for req'
  proof -
    from authenticate_Inr_verified [OF that] obtain tok p
      where tp: "bearer_token req = Inr tok" "jwt_verify tok = Decoded p"
        and dec: "authenticate_decoded d req p = Inr req'" by blast
    from authenticate_decoded_Inr [OF dec] tp show ?thesis by blast
  qed
  have mapping: "(User_findById d (jwt_id p) = None \<longrightarrow>
              authenticate jwt_verify d req = Inl (APIError ''User not found or token is invalid.'' 401))
         \<and> (\<forall>u. User_findById d (jwt_id p) = Some u \<and> user_status u \<noteq> ''active'' \<longrightarrow>
              authenticate jwt_verify d req = Inl (APIError ''User account is not active.'' 403))
         \<and> (\<forall>u sid. User_findById d (jwt_id p) = Some u \<and> user_status u = ''active''
                \<and> jwt_serviceId p = Some sid \<longrightarrow>
              (Service_findById d sid = None \<longrightarrow>
                 authenticate jwt_verify d req
                   = Inl (APIError ''Service not found or token is invalid.'' 401))
            \<and> (\<forall>s. Service_findById d sid = Some s \<and> \<not> active s \<longrightarrow>
                 authenticate jwt_verify d req = Inl (APIError ''Service is not active.'' 403))
            \<and> (\<forall>s. Service_findById d sid = Some s \<and> active s
                    \<and> UserService_findOne d (user_id u) (Some sid) = None \<longrightarrow>
                 authenticate jwt_verify d req
                   = Inl (APIError ''User does not have access to this service.'' 403))
            \<and> (\<forall>s g. Service_findById d sid = Some s \<and> active s
                    \<and> UserService_findOne d (user_id u) (Some sid) = Some g
                    \<and> us_status g \<noteq> ''active'' \<longrightarrow>
                 authenticate jwt_verify d req
                   = Inl (APIError ''User access to this service is not active.'' 403)))"
    if "bearer_token req = Inr tok" "jwt_verify tok = Decoded p" for tok p
    using authenticate_guards_verified [where jwt_verify = jwt_verify and d = d, OF that] by blast
  show ?thesis
  proof (rule conjI)
    show "\<forall>req'. authenticate jwt_verify d req = Inr req' \<longrightarrow>
      (\<exists>tok p u. bearer_token req = Inr tok \<and> jwt_verify tok = Decoded p
          \<and> User_findById d (jwt_id p) = Some u \<and> user_status u = ''active''
          \<and> req_user req' = Some u
          \<and> (\<forall>sid. jwt_serviceId p = Some sid \<longrightarrow>
                (\<exists>s g. Service_findById d sid = Some s \<and> active s
                       \<and> UserService_findOne d (user_id u) (Some sid) = Some g
                       \<and> us_status g = ''active'')))"
      by (intro allI impI) (rule only_when)
  next
    show "\<forall>tok p. bearer_token req = Inr tok \<and> jwt_verify tok = Decoded p \<longrightarrow>
      (User_findById d (jwt_id p) = None \<longrightarrow>
              authenticate jwt_verify d req = Inl (APIError ''User not found or token is invalid.'' 401))
         \<and> (\<forall>u. User_findById d (jwt_id p) = Some u \<and> user_status u \<noteq> ''active'' \<longrightarrow>
              authenticate jwt_verify d req = Inl (APIError ''User account is not active.'' 403))
         \<and> (\<forall>u sid. User_findById d (jwt_id p) = Some u \<and> user_status u = ''active''
                \<and> jwt_serviceId p = Some sid \<longrightarrow>
              (Service_findById d sid = None \<longrightarrow>
                 authenticate jwt_verify d req
                   = Inl (APIError ''Service not found or token is invalid.'' 401))
            \<and> (\<forall>s. Service_findById d sid = Some s \<and> \<not> active s \<longrightarrow>
                 authenticate jwt_verify d req = Inl (APIError ''Service is not active.'' 403))
            \<and> (\<forall>s. Service_findById d sid = Some s \<and> active s
                    \<and> UserService_findOne d (user_id u) (Some sid) = None \<longrightarrow>
                 authenticate jwt_verify d req
                   = Inl (APIError ''User does not have access to this service.'' 403))
            \<and> (\<forall>s g. Service_findById d sid = Some s \<and> active s
                    \<and> UserService_findOne d (user_id u) (Some sid) = Some g
                    \<and> us_status g \<noteq> ''active'' \<longrightarrow>
                 authenticate jwt_verify d req
                   = Inl (APIError ''User access to this service is not active.'' 403)))"
    proof (intro allI impI)
      fix tok p
      assume "bearer_token req = Inr tok \<and> jwt_verify tok = Decoded p"
      then have "bearer_token req = Inr tok" and "jwt_verify tok = Decoded p" by simp_all
      then show "(User_findById d (jwt_id p) = None \<longrightarrow>
              authenticate jwt_verify d req = Inl (APIError ''User not found or token is invalid.'' 401))
         \<and> (\<forall>u. User_findById d (jwt_id p) = Some u \<and> user_status u \<noteq> ''active'' \<longrightarrow>
              authenticate jwt_verify d req = Inl (APIError ''User account is not active.'' 403))
         \<and> (\<forall>u sid. User_findById d (jwt_id p) = Some u \<and> user_status u = ''active''
                \<and> jwt_serviceId p = Some sid \<longrightarrow>
              (Service_findById d sid = None \<longrightarrow>
                 authenticate jwt_verify d req
                   = Inl (APIError ''Service not found or token is invalid.'' 401))
            \<and> (\<forall>s. Service_findById d sid = Some s \<and> \<not> active s \<longrightarrow>
                 authenticate jwt_verify d req = Inl (APIError ''Service is not active.'' 403))
            \<and> (\<forall>s. Service_findById d sid = Some s \<and> active s
                    \<and> UserService_findOne d (user_id u) (Some sid) = None \<longrightarrow>
                 authenticate jwt_verify d req
                   = Inl (APIError ''User does not have access to this service.'' 403))
            \<and> (\<forall>s g. Service_findById d sid = Some s \<and> active s
                    \<and> UserService_findOne d (user_id u) (Some sid) = Some g
                    \<and> us_status g \<noteq> ''active'' \<longrightarrow>
                 authenticate jwt_verify d req
                   = Inl (APIError ''User access to this service is not active.'' 403)))" by (rule mapping)
    qed
  qed
qed

text \<open>
  The guards at work on the sample store: an unknown principal, an inactive service, a
  principal that is not active, a service the principal has no relationship with, a
  suspended relationship, and a success through an active relationship.
\<close>

theorem C1_authenticate_guards_witness:
  "(bearer_token (ex_request ''dave'' (JObj [])) = Inr ''dave''
    \<and> ex_verify ''dave'' = Decoded \<lparr>jwt_id = 4, jwt_username = ''dave'', jwt_serviceId = None\<rparr>
    \<and> User_findById ex_db 4 = None
    \<and> authenticate ex_verify ex_db (ex_request ''dave'' (JObj []))
        = Inl (APIError ''User not found or token is invalid.'' 401))
   \<and> (bearer_token (ex_request ''carol@legacy'' (JObj [])) = Inr ''carol@legacy''
    \<and> ex_verify ''carol@legacy''
        = Decoded \<lparr>jwt_id = 3, jwt_username = ''carol'', jwt_serviceId = Some 11\<rparr>
    \<and> User_findById ex_db 3 = Some ex_carol \<and> user_status ex_carol = ''active''
    \<and> Service_findById ex_db 11 = Some ex_legacy \<and> \<not> active ex_legacy
    \<and> authenticate ex_verify ex_db (ex_request ''carol@legacy'' (JObj []))
        = Inl (APIError ''Service is not active.'' 403))
   \<and> (User_findById ex_db 2 = Some ex_bob \<and> user_status ex_bob \<noteq> ''active''
    \<and> authenticate ex_verify ex_db (ex_request ''bob'' (JObj []))
        = Inl (APIError ''User account is not active.'' 403))
   \<and> (User_findById ex_db 1 = Some ex_alice \<and> user_status ex_alice = ''active''
    \<and> Service_findById ex_db 12 = Some ex_reports \<and> active ex_reports
    \<and> UserService_findOne ex_db 1 (Some 12) = None
    \<and> authenticate ex_verify ex_db (ex_request ''alice@reports'' (JObj []))
        = Inl (APIError ''User does not have access to this service.'' 403))
   \<and> (UserService_findOne ex_db 1 (Some 10)
        = Some \<lparr>us_id = 201, us_userId = 1, us_serviceId = Some 10, us_roles = [103],
                 us_status = ''suspended''\<rparr>
    \<and> authenticate ex_verify ex_db (ex_request ''alice@billing'' (JObj []))
        = Inl (APIError ''User access to this service is not active.'' 403))
   \<and> (bearer_token (ex_request ''carol@billing'' (JObj [])) = Inr ''carol@billing''
    \<and> ex_verify ''carol@billing''
        = Decoded \<lparr>jwt_id = 3, jwt_username = ''carol'', jwt_serviceId = Some 10\<rparr>
    \<and> \<not> isl (authenticate ex_verify ex_db (ex_request ''carol@billing'' (JObj [])))
    \<and> Service_findById ex_db 10 = Some ex_billing \<and> active ex_billing
    \<and> (\<exists>g. UserService_findOne ex_db 3 (Some 10) = Some g \<and> us_status g = ''active''))"
proof -
  let ?dave = "\<lparr>jwt_id = 4, jwt_username = ''dave'', jwt_serviceId = None\<rparr>"
  let ?legacy = "\<lparr>jwt_id = 3, jwt_username = ''carol'', jwt_serviceId = Some 11\<rparr>"
  let ?billing = "\<lparr>jwt_id = 3, jwt_username = ''carol'', jwt_serviceId = Some 10\<rparr>"
  have b1: "bearer_token (ex_request ''dave'' (JObj [])) = Inr ''dave''"
    by (simp add: bearer_token_def ex_request_def startsWith_def)
  have v1: "ex_verify ''dave'' = Decoded ?dave"
    by (simp add: ex_verify_def)
  have u1: "User_findById ex_db (jwt_id ?dave) = None"
    by (simp add: ex_defs User_findById_def)
  from C1_authenticate_guards [of ex_verify ex_db, THEN conjunct2, rule_format, OF conjI [OF b1 v1]] u1
  have r1: "authenticate ex_verify ex_db (ex_request ''dave'' (JObj []))
              = Inl (APIError ''User not found or token is invalid.'' 401)"
    by blast
  have b2: "bearer_token (ex_request ''carol@legacy'' (JObj [])) = Inr ''carol@legacy''"
    by (simp add: bearer_token_def ex_request_def startsWith_def)
  have v2: "ex_verify ''carol@legacy'' = Decoded ?legacy"
    by (simp add: ex_verify_def)
  have u2: "User_findById ex_db (jwt_id ?legacy) = Some ex_carol" "user_status ex_carol = ''active''"
    by (simp_all add: ex_defs User_findById_def)
  have s2: "Service_findById ex_db 11 = Some ex_legacy" "\<not> active ex_legacy"
    by (simp_all add: ex_defs Service_findById_def)
  from C1_authenticate_guards [of ex_verify ex_db, THEN conjunct2, rule_format, OF conjI [OF b2 v2]] u2 s2
  have r2: "authenticate ex_verify ex_db (ex_request ''carol@legacy'' (JObj []))
              = Inl (APIError ''Service is not active.'' 403)"
    by (metis jwt_payload.select_convs(3))
  let ?bob = "\<lparr>jwt_id = 2, jwt_username = ''bob'', jwt_serviceId = None\<rparr>"
  let ?reports = "\<lparr>jwt_id = 1, jwt_username = ''alice'', jwt_serviceId = Some 12\<rparr>"
  let ?suspended = "\<lparr>jwt_id = 1, jwt_username = ''alice'', jwt_serviceId = Some 10\<rparr>"
  let ?g = "\<lparr>us_id = 201, us_userId = 1, us_serviceId = Some 10, us_roles = [103],
             us_status = ''suspended''\<rparr>"
  have b4: "bearer_token (ex_request ''bob'' (JObj [])) = Inr ''bob''"
    by (simp add: bearer_token_def ex_request_def startsWith_def)
  have v4: "ex_verify ''bob'' = Decoded ?bob" by (simp add: ex_verify_def)
  have u4: "User_findById ex_db (jwt_id ?bob) = Some ex_bob \<and> user_status ex_bob \<noteq> ''active''"
    by (simp add: ex_defs User_findById_def)
  from C1_authenticate_guards [of ex_verify ex_db, THEN conjunct2, rule_format, OF conjI [OF b4 v4],
      THEN conjunct2, THEN conjunct1, rule_format, OF u4]
  have r4: "authenticate ex_verify ex_db (ex_request ''bob'' (JObj []))
              = Inl (APIError ''User account is not active.'' 403)" .
  have b5: "bearer_token (ex_request ''alice@reports'' (JObj [])) = Inr ''alice@reports''"
    by (simp add: bearer_token_def ex_request_def startsWith_def)
  have v5: "ex_verify ''alice@reports'' = Decoded ?reports" by (simp add: ex_verify_def)
  have u5: "User_findById ex_db (jwt_id ?reports) = Some ex_alice \<and> user_status ex_alice = ''active''
            \<and> jwt_serviceId ?reports = Some 12"
    by (simp add: ex_defs User_findById_def)
  have s5: "Service_findById ex_db 12 = Some ex_reports \<and> active ex_reports
            \<and> UserService_findOne ex_db (user_id ex_alice) (Some 12) = None"
    by (simp add: ex_defs Service_findById_def UserService_findOne_def)
  from C1_authenticate_guards [of ex_verify ex_db, THEN conjunct2, rule_format, OF conjI [OF b5 v5],
      THEN conjunct2, THEN conjunct2, rule_format, OF u5,
      THEN conjunct2, THEN conjunct2, THEN conjunct1, rule_format, OF s5]
  have r5: "authenticate ex_verify ex_db (ex_request ''alice@reports'' (JObj []))
              = Inl (APIError ''User does not have access to this service.'' 403)" .
  have b6: "bearer_token (ex_request ''alice@billing'' (JObj [])) = Inr ''alice@billing''"
    by (simp add: bearer_token_def ex_request_def startsWith_def)
  have v6: "ex_verify ''alice@billing'' = Decoded ?suspended" by (simp add: ex_verify_def)
  have u6: "User_findById ex_db (jwt_id ?suspended) = Some ex_alice \<and> user_status ex_alice = ''active''
            \<and> jwt_serviceId ?suspended = Some 10"
    by (simp add: ex_defs User_findById_def)
  have s6: "Service_findById ex_db 10 = Some ex_billing \<and> active ex_billing
            \<and> UserService_findOne ex_db (user_id ex_alice) (Some 10) = Some ?g
            \<and> us_status ?g \<noteq> ''active''"
    by (simp add: ex_defs Service_findById_def UserService_findOne_def)
  from C1_authenticate_guards [of ex_verify ex_db, THEN conjunct2, rule_format, OF conjI [OF b6 v6],
      THEN conjunct2, THEN conjunct2, rule_format, OF u6,
      THEN conjunct2, THEN conjunct2, THEN conjunct2, rule_format, OF s6]
  have r6: "authenticate ex_verify ex_db (ex_request ''alice@billing'' (JObj []))
              = Inl (APIError ''User access to this service is not active.'' 403)" .
  have a1: "user_id ex_alice = 1" by (simp add: ex_alice_def)
  have b3: "bearer_token (ex_request ''carol@billing'' (JObj [])) = Inr ''carol@billing''"
    by (simp add: bearer_token_def ex_request_def startsWith_def)
  have v3: "ex_verify ''carol@billing'' = Decoded ?billing"
    by (simp add: ex_verify_def)
  have ok3: "\<not> isl (authenticate ex_verify ex_db (ex_request ''carol@billing'' (JObj [])))"
    by (simp add: auth_defs ex_defs)
  then obtain req' where
    req': "authenticate ex_verify ex_db (ex_request ''carol@billing'' (JObj [])) = Inr req'"
    by (cases "authenticate ex_verify ex_db (ex_request ''carol@billing'' (JObj []))") auto
  from C1_authenticate_guards [of ex_verify ex_db, THEN conjunct1, rule_format, OF req']
  obtain tok p u where tp: "bearer_token (ex_request ''carol@billing'' (JObj [])) = Inr tok"
      "ex_verify tok = Decoded p"
    and u3: "User_findById ex_db (jwt_id p) = Some u"
    and g3: "\<forall>sid. jwt_serviceId p = Some sid \<longrightarrow>
                 (\<exists>s g. Service_findById ex_db sid = Some s \<and> active s
                        \<and> UserService_findOne ex_db (user_id u) (Some sid) = Some g
                        \<and> us_status g = ''active'')"
    by blast
  from tp(1) b3 have "tok = ''carol@billing''" by simp
  with tp(2) v3 have p: "p = ?billing" by simp
  from u3 p have "u = ex_carol" by (simp add: ex_defs User_findById_def)
  with g3 p have r3: "Service_findById ex_db 10 = Some ex_billing \<and> active ex_billing
    \<and> (\<exists>g. UserService_findOne ex_db 3 (Some 10) = Some g \<and> us_status g = ''active'')"
    by (simp add: ex_defs Service_findById_def)
  from b1 v1 u1 r1 b2 v2 u2 s2 r2 u4 r4 u5 s5 r5 s6 r6 a1 b3 v3 ok3 r3 show ?thesis by simp
qed

text \<open>
  Claim C1 as it was written answers a token whose service does not exist with
  TenantInactive/403.  The code answers 401: Carol is active, her token names service 99,
  and no such service is stored.
\<close>

theorem C1_missing_tenant_is_401_counterexample:
  "bearer_token (ex_request ''carol@gone'' (JObj [])) = Inr ''carol@gone''
   \<and> ex_verify ''carol@gone'' = Decoded \<lparr>jwt_id = 3, jwt_username = ''carol'', jwt_serviceId = Some 99\<rparr>
   \<and> User_findById ex_db 3 = Some ex_carol \<and> user_status ex_carol = ''active''
   \<and> Service_findById ex_db 99 = None
   \<and> authenticate ex_verify ex_db (ex_request ''carol@gone'' (JObj []))
       = Inl (APIError ''Service not found or token is invalid.'' 401)
   \<and> statusCode_of (APIError ''Service not found or token is invalid.'' 401) \<noteq> Some 403"
  by (simp add: ex_defs authenticate_def bearer_token_def startsWith_def authenticate_decoded_def
      User_findById_def Service_findById_def)

section \<open>The admin bypass (C2, C10)\<close>

text \<open>
  Claim C2.  When the candidate role set of the request holds the global role named
  \<open>admin\<close>, \<open>hasPermission(p)\<close> calls \<open>next()\<close> for every permission string \<open>p\<close>, whether or
  not any role lists \<open>p\<close>.
\<close>

theorem C2_global_admin_passes_every_permission:
  assumes "req_userRoles req = Some rs" and "r \<in> set rs"
    and "role_name r = ''admin''" and "isGlobal r"
  shows "hasPermission p req = Inr ()"
  using assms by (auto simp: hasPermission_def list_ex_iff)

text \<open>
  Alice authenticates without a service, her candidate roles are the global admin role,
  and a permission that no stored role lists is allowed.
\<close>

theorem C2_global_admin_passes_every_permission_witness:
  "authenticate ex_verify ex_db (ex_request ''alice'' (JObj []))
     = Inr ((ex_request ''alice'' (JObj []))\<lparr>req_user := Some ex_alice,
                                               req_userRoles := Some [ex_admin_role]\<rparr>)
   \<and> ex_admin_role \<in> set [ex_admin_role] \<and> role_name ex_admin_role = ''admin''
   \<and> isGlobal ex_admin_role
   \<and> \<not> list_ex (\<lambda>r. ''galaxy:destroy'' \<in> set (permissions r)) (roles ex_db)
   \<and> hasPermission ''galaxy:destroy''
        ((ex_request ''alice'' (JObj []))\<lparr>req_user := Some ex_alice,
                                           req_userRoles := Some [ex_admin_role]\<rparr>) = Inr ()"
proof -
  let ?req' = "(ex_request ''alice'' (JObj []))\<lparr>req_user := Some ex_alice,
                                                 req_userRoles := Some [ex_admin_role]\<rparr>"
  have a: "authenticate ex_verify ex_db (ex_request ''alice'' (JObj [])) = Inr ?req'"
    by (simp add: auth_defs ex_defs)
  have h1: "req_userRoles ?req' = Some [ex_admin_role]" by simp
  have h2: "ex_admin_role \<in> set [ex_admin_role]" by simp
  have h3: "role_name ex_admin_role = ''admin''" by (simp add: ex_admin_role_def)
  have h4: "isGlobal ex_admin_role" by (simp add: ex_admin_role_def)
  have n: "\<not> list_ex (\<lambda>r. ''galaxy:destroy'' \<in> set (permissions r)) (roles ex_db)"
    by (simp add: ex_defs)
  from C2_global_admin_passes_every_permission [OF h1 h2 h3 h4, of "''galaxy:destroy''"]
    a h2 h3 h4 n
  show ?thesis by simp
qed

text \<open>
  Claim C10.  The bypass looks at the role's name only: any role named \<open>admin\<close> in the
  candidate set allows every permission, and the decision of \<open>hasPermission\<close> does not
  change when the \<open>isGlobal\<close> flag and the service of the candidate roles are replaced by
  anything else.
\<close>

theorem C10_admin_bypass_by_name_only:
  "(\<forall>rs r. req_userRoles req = Some rs \<and> r \<in> set rs \<and> role_name r = ''admin''
       \<longrightarrow> hasPermission p req = Inr ())
   \<and> hasPermission p (req\<lparr>req_userRoles :=
        map_option (map (\<lambda>r. r\<lparr>isGlobal := G r, role_serviceId := S r\<rparr>)) (req_userRoles req)\<rparr>)
     = hasPermission p req"
  by (cases "req_userRoles req") (auto simp: hasPermission_def list_ex_iff)

text \<open>
  Carol holds, in the billing service, a role that is named \<open>admin\<close>, is not global, and
  lists no permission; with a token for billing she is allowed \<open>user:delete\<close>.
\<close>

theorem C10_admin_bypass_by_name_only_witness:
  "authenticate ex_verify ex_db (ex_request ''carol@billing'' (JObj []))
     = Inr ((ex_request ''carol@billing'' (JObj []))\<lparr>req_user := Some ex_carol,
          req_service := Some ex_billing,
          req_userService := Some \<lparr>us_id = 202, us_userId = 3, us_serviceId = Some 10,
                                   us_roles = [102], us_status = ''active''\<rparr>,
          req_userRoles := Some [ex_tenant_admin_role]\<rparr>)
   \<and> role_name ex_tenant_admin_role = ''admin'' \<and> \<not> isGlobal ex_tenant_admin_role
   \<and> role_serviceId ex_tenant_admin_role = Some 10
   \<and> permissions ex_tenant_admin_role = []
   \<and> hasPermission ''user:delete''
        ((ex_request ''carol@billing'' (JObj []))\<lparr>req_user := Some ex_carol,
          req_service := Some ex_billing,
          req_userService := Some \<lparr>us_id = 202, us_userId = 3, us_serviceId = Some 10,
                                   us_roles = [102], us_status = ''active''\<rparr>,
          req_userRoles := Some [ex_tenant_admin_role]\<rparr>) = Inr ()"
proof -
  let ?req' = "(ex_request ''carol@billing'' (JObj []))\<lparr>req_user := Some ex_carol,
          req_service := Some ex_billing,
          req_userService := Some \<lparr>us_id = 202, us_userId = 3, us_serviceId = Some 10,
                                   us_roles = [102], us_status = ''active''\<rparr>,
          req_userRoles := Some [ex_tenant_admin_role]\<rparr>"
  have a: "authenticate ex_verify ex_db (ex_request ''carol@billing'' (JObj [])) = Inr ?req'"
    by (simp add: auth_defs ex_defs)
  have h: "req_userRoles ?req' = Some [ex_tenant_admin_role]
           \<and> ex_tenant_admin_role \<in> set [ex_tenant_admin_role]
           \<and> role_name ex_tenant_admin_role = ''admin''"
    by (simp add: ex_tenant_admin_role_def)
  have f: "\<not> isGlobal ex_tenant_admin_role \<and> role_serviceId ex_tenant_admin_role = Some 10
           \<and> permissions ex_tenant_admin_role = []"
    by (simp add: ex_tenant_admin_role_def)
  from C10_admin_bypass_by_name_only [of ?req' "''user:delete''"] h
  have "hasPermission ''user:delete'' ?req' = Inr ()" by blast
  with a h f show ?thesis by simp
qed

section \<open>The refresh-token exchange (C3)\<close>

text \<open>
  Claim C3, as the code has it.  For a stored, unexpired refresh token of an existing,
  active user, \<open>authenticateRefreshToken\<close> passes the request on with that user and token
  and leaves the store as it was, and \<open>refreshToken\<close> answers 200 with a new access token.
  The token is still found afterwards, and a later exchange with the same value, while
  the token has not expired, succeeds in the same way.
\<close>

theorem C3_refresh_exchange_keeps_credential:
  assumes "get_prop ''refreshToken'' (req_body req) = Some (JStr v)" and "v \<noteq> []"
    and "Token_findOne d v ''refresh'' = Some t" and "\<not> isExpired now t"
    and "User_findById d (token_userId t) = Some u" and "user_status u = ''active''"
  shows "let d' = snd (authenticateRefreshToken cast_query now d req)
         in (\<exists>req' resp sid.
               fst (authenticateRefreshToken cast_query now d req) = Inr req'
               \<and> req_user req' = Some u \<and> req_token req' = Some t
               \<and> refreshToken jwt_sign req' = Inr resp \<and> res_statusCode resp = 200
               \<and> get_prop ''token'' (res_data resp) = Some (JStr (generateToken jwt_sign u sid)))
          \<and> d' = d
          \<and> Token_findOne d' v ''refresh'' = Some t
          \<and> (\<forall>now'. \<not> isExpired now' t \<longrightarrow>
                (\<exists>req'' resp' sid'.
                   authenticateRefreshToken cast_query now' d' req = (Inr req'', d')
                   \<and> refreshToken jwt_sign req'' = Inr resp' \<and> res_statusCode resp' = 200
                   \<and> get_prop ''token'' (res_data resp')
                       = Some (JStr (generateToken jwt_sign u sid'))))"
proof -
  have st: "snd (authenticateRefreshToken cast_query now d req) = d"
    by (rule authenticateRefreshToken_store)
  have use: "\<exists>req' resp sid. authenticateRefreshToken cast_query n d req = (Inr req', d)
               \<and> req_user req' = Some u \<and> req_token req' = Some t
               \<and> refreshToken jwt_sign req' = Inr resp \<and> res_statusCode resp = 200
               \<and> get_prop ''token'' (res_data resp) = Some (JStr (generateToken jwt_sign u sid))"
    if "\<not> isExpired n t" for n
  proof -
    from authenticateRefreshToken_success [OF assms(1) assms(2) assms(3) that assms(5) assms(6)]
    obtain req' where a: "authenticateRefreshToken cast_query n d req = (Inr req', d)"
      and u: "req_user req' = Some u" and t: "req_token req' = Some t" by blast
    from refreshToken_issues [OF u] obtain resp sid
      where "refreshToken jwt_sign req' = Inr resp" "res_statusCode resp = 200"
        "get_prop ''token'' (res_data resp) = Some (JStr (generateToken jwt_sign u sid))"
      by blast
    with a u t show ?thesis by blast
  qed
  from use [OF assms(4)] obtain req' resp sid
    where first: "authenticateRefreshToken cast_query now d req = (Inr req', d)"
      "req_user req' = Some u" "req_token req' = Some t"
      "refreshToken jwt_sign req' = Inr resp" "res_statusCode resp = 200"
      "get_prop ''token'' (res_data resp) = Some (JStr (generateToken jwt_sign u sid))"
    by blast
  have one: "\<exists>req' resp sid.
               fst (authenticateRefreshToken cast_query now d req) = Inr req'
               \<and> req_user req' = Some u \<and> req_token req' = Some t
               \<and> refreshToken jwt_sign req' = Inr resp \<and> res_statusCode resp = 200
               \<and> get_prop ''token'' (res_data resp) = Some (JStr (generateToken jwt_sign u sid))"
    using first by auto
  have again: "\<forall>now'. \<not> isExpired now' t \<longrightarrow>
                (\<exists>req'' resp' sid'.
                   authenticateRefreshToken cast_query now' d req = (Inr req'', d)
                   \<and> refreshToken jwt_sign req'' = Inr resp' \<and> res_statusCode resp' = 200
                   \<and> get_prop ''token'' (res_data resp')
                       = Some (JStr (generateToken jwt_sign u sid')))"
  proof (intro allI impI)
    fix now' assume "\<not> isExpired now' t"
    from use [OF this] show "\<exists>req'' resp' sid'.
                   authenticateRefreshToken cast_query now' d req = (Inr req'', d)
                   \<and> refreshToken jwt_sign req'' = Inr resp' \<and> res_statusCode resp' = 200
                   \<and> get_prop ''token'' (res_data resp')
                       = Some (JStr (generateToken jwt_sign u sid'))"
      by blast
  qed
  show ?thesis
    unfolding Let_def st using one assms(3) again by simp
qed

text \<open>
  Alice's second refresh token on the sample store, used twice.
\<close>

theorem C3_refresh_exchange_keeps_credential_witness:
  "get_prop ''refreshToken'' (req_body ex_refresh_request) = Some (JStr ''rt-alice-2'')
   \<and> (\<exists>t. Token_findOne ex_db ''rt-alice-2'' ''refresh'' = Some t \<and> \<not> isExpired 2000 t
          \<and> \<not> isExpired 2001 t \<and> User_findById ex_db (token_userId t) = Some ex_alice)
   \<and> user_status ex_alice = ''active''
   \<and> snd (authenticateRefreshToken ex_cast_query 2000 ex_db ex_refresh_request) = ex_db
   \<and> (\<exists>req'' resp'.
         authenticateRefreshToken ex_cast_query 2001
           (snd (authenticateRefreshToken ex_cast_query 2000 ex_db ex_refresh_request))
           ex_refresh_request
           = (Inr req'', snd (authenticateRefreshToken ex_cast_query 2000 ex_db ex_refresh_request))
         \<and> refreshToken ex_sign req'' = Inr resp' \<and> res_statusCode resp' = 200)"
proof -
  let ?t = "\<lparr>token_id = 301, token_userId = 1, token_value = ''rt-alice-2'',
             token_type = ''refresh'', expiresAt = 9000, metadata_serviceId = None,
             metadata_deviceInfo = [], metadata_ipAddress = []\<rparr>"
  let ?d' = "snd (authenticateRefreshToken ex_cast_query 2000 ex_db ex_refresh_request)"
  have h1: "get_prop ''refreshToken'' (req_body ex_refresh_request) = Some (JStr ''rt-alice-2'')"
    by (simp add: ex_refresh_request_def ex_public_request_def)
  have h2: "''rt-alice-2'' \<noteq> []" by simp
  have h3: "Token_findOne ex_db ''rt-alice-2'' ''refresh'' = Some ?t"
    by (simp add: Token_findOne_def ex_db_def ex_tokens_def)
  have h4: "\<not> isExpired 2000 ?t" by (simp add: isExpired_def)
  have h5: "User_findById ex_db (token_userId ?t) = Some ex_alice"
    by (simp add: User_findById_def ex_db_def ex_alice_def)
  have h6: "user_status ex_alice = ''active''" by (simp add: ex_alice_def)
  have h7: "\<not> isExpired 2001 ?t" by (simp add: isExpired_def)
  note T = C3_refresh_exchange_keeps_credential [OF h1 h2 h3 h4 h5 h6, of ex_cast_query ex_sign,
      unfolded Let_def]
  from T have r1: "?d' = ex_db" by (elim conjE)
  from T have "\<forall>now'. \<not> isExpired now' ?t \<longrightarrow>
                (\<exists>req'' resp' sid'.
                   authenticateRefreshToken ex_cast_query now' ?d' ex_refresh_request = (Inr req'', ?d')
                   \<and> refreshToken ex_sign req'' = Inr resp' \<and> res_statusCode resp' = 200
                   \<and> get_prop ''token'' (res_data resp')
                       = Some (JStr (generateToken ex_sign ex_alice sid')))"
    by (elim conjE)
  with h7 have r2: "\<exists>req'' resp'.
         authenticateRefreshToken ex_cast_query 2001 ?d' ex_refresh_request = (Inr req'', ?d')
         \<and> refreshToken ex_sign req'' = Inr resp' \<and> res_statusCode resp' = 200"
    by blast
  from h1 h3 h4 h5 h6 h7 r1 r2 show ?thesis by blast
qed

text \<open>
  Claim C3 as it was written has the exchange delete the token, so that a second use is
  answered as an unknown token.  On the sample store the first exchange succeeds and
  leaves the store as it was, the token is still found, and the second exchange succeeds
  as well.
\<close>

theorem C3_second_use_succeeds_counterexample:
  "authenticateRefreshToken ex_cast_query 2000 ex_db ex_refresh_request
     = (Inr (ex_refresh_request\<lparr>req_user := Some ex_alice,
               req_token := Some \<lparr>token_id = 301, token_userId = 1, token_value = ''rt-alice-2'',
                 token_type = ''refresh'', expiresAt = 9000, metadata_serviceId = None,
                 metadata_deviceInfo = [], metadata_ipAddress = []\<rparr>\<rparr>), ex_db)
   \<and> refreshToken ex_sign
        (ex_refresh_request\<lparr>req_user := Some ex_alice,
               req_token := Some \<lparr>token_id = 301, token_userId = 1, token_value = ''rt-alice-2'',
                 token_type = ''refresh'', expiresAt = 9000, metadata_serviceId = None,
                 metadata_deviceInfo = [], metadata_ipAddress = []\<rparr>\<rparr>)
     = Inr \<lparr>res_statusCode = 200,
            res_data = JObj [(''success'', JBool True), (''token'', JStr ''alice''),
                             (''user'', JObj [(''_id'', JNum 1), (''username'', JStr ''alice''),
                                              (''email'', JStr ''alice@x.com''),
                                              (''displayName'', JStr ''Alice'')])]\<rparr>
   \<and> Token_findOne (snd (authenticateRefreshToken ex_cast_query 2000 ex_db ex_refresh_request))
        ''rt-alice-2'' ''refresh''
     = Some \<lparr>token_id = 301, token_userId = 1, token_value = ''rt-alice-2'',
             token_type = ''refresh'', expiresAt = 9000, metadata_serviceId = None,
             metadata_deviceInfo = [], metadata_ipAddress = []\<rparr>
   \<and> fst (authenticateRefreshToken ex_cast_query 2001
             (snd (authenticateRefreshToken ex_cast_query 2000 ex_db ex_refresh_request))
             ex_refresh_request)
       \<noteq> Inl (APIError ''Invalid refresh token.'' 401)
   \<and> fst (authenticateRefreshToken ex_cast_query 2001
             (snd (authenticateRefreshToken ex_cast_query 2000 ex_db ex_refresh_request))
             ex_refresh_request)
       = Inr (ex_refresh_request\<lparr>req_user := Some ex_alice,
               req_token := Some \<lparr>token_id = 301, token_userId = 1, token_value = ''rt-alice-2'',
                 token_type = ''refresh'', expiresAt = 9000, metadata_serviceId = None,
                 metadata_deviceInfo = [], metadata_ipAddress = []\<rparr>\<rparr>)"
  by (simp add: authenticateRefreshToken_def string_query_def Token_findOne_matching_def
      Token_findOne_def isExpired_def refreshToken_def generateToken_def User_findById_def
      Service_findById_def Let_def ex_defs)

section \<open>Candidate roles in global scope (C4)\<close>

text \<open>
  Claim C4.  For an active user whose verified token carries no service identifier,
  \<open>authenticate\<close> succeeds and the candidate roles are exactly the stored roles that are
  marked global and are referenced by some relationship of that user, whatever the service
  (or \<open>null\<close>) and the status of the relationship.
\<close>

theorem C4_global_scope_candidate_roles:
  assumes "bearer_token req = Inr tok" and "jwt_verify tok = Decoded p"
    and "jwt_serviceId p = None"
    and "User_findById d (jwt_id p) = Some u" and "user_status u = ''active''"
  shows "\<exists>req' rs. authenticate jwt_verify d req = Inr req' \<and> req_userRoles req' = Some rs
           \<and> set rs = {r \<in> set (roles d). isGlobal r
                         \<and> (\<exists>g\<in>set (userServices d). us_userId g = jwt_id p
                               \<and> role_id r \<in> set (us_roles g))}"
proof -
  have uid: "user_id u = jwt_id p" using assms(4) by (simp add: User_findById_id)
  have "authenticate jwt_verify d req
          = Inr (req\<lparr>req_user := Some u,
                     req_userRoles := Some (Role_find_global_in d
                                              (UserService_distinct_roles d (jwt_id p)))\<rparr>)"
    using assms uid by (simp add: authenticate_verified authenticate_decoded_def)
  moreover have "set (Role_find_global_in d (UserService_distinct_roles d (jwt_id p)))
           = {r \<in> set (roles d). isGlobal r
                         \<and> (\<exists>g\<in>set (userServices d). us_userId g = jwt_id p
                               \<and> role_id r \<in> set (us_roles g))}"
    by (auto simp: Role_find_global_in_def set_distinct_roles)
  ultimately show ?thesis by simp
qed

text \<open>
  Carol has no global relationship; the global \<open>user\<close> role reaches her candidate
  set through her suspended relationship with the legacy service.
\<close>

theorem C4_global_scope_candidate_roles_witness:
  "bearer_token (ex_request ''carol'' (JObj [])) = Inr ''carol''
   \<and> ex_verify ''carol'' = Decoded \<lparr>jwt_id = 3, jwt_username = ''carol'', jwt_serviceId = None\<rparr>
   \<and> User_findById ex_db 3 = Some ex_carol \<and> user_status ex_carol = ''active''
   \<and> (\<exists>req' rs. authenticate ex_verify ex_db (ex_request ''carol'' (JObj [])) = Inr req'
         \<and> req_userRoles req' = Some rs \<and> set rs = {ex_user_role})"
proof -
  let ?p = "\<lparr>jwt_id = 3, jwt_username = ''carol'', jwt_serviceId = None\<rparr>"
  have b: "bearer_token (ex_request ''carol'' (JObj [])) = Inr ''carol''"
    by (simp add: bearer_token_def ex_request_def startsWith_def)
  have v: "ex_verify ''carol'' = Decoded ?p" by (simp add: ex_verify_def)
  have n: "jwt_serviceId ?p = None" by simp
  have u: "User_findById ex_db (jwt_id ?p) = Some ex_carol"
    by (simp add: ex_defs User_findById_def)
  have s: "user_status ex_carol = ''active''" by (simp add: ex_carol_def)
  have e: "{r \<in> set (roles ex_db). isGlobal r
             \<and> (\<exists>g\<in>set (userServices ex_db). us_userId g = jwt_id ?p
                   \<and> role_id r \<in> set (us_roles g))} = {ex_user_role}"
    by (auto simp: ex_defs)
  from C4_global_scope_candidate_roles [where jwt_verify = ex_verify, OF b v n u s] e b v u s
  show ?thesis by simp
qed

section \<open>Password change (C7)\<close>

text \<open>
  Claim C7.  After a successful \<open>changePassword\<close> the token collection is the old one
  without the refresh tokens of the requesting user: none of them is left, every token of
  another kind or another user is kept, and a refresh token of the user whose value no
  other user's refresh token shares is no longer found, so \<open>authenticateRefreshToken\<close>
  answers it with 401 \<open>Invalid refresh token.\<close>  No lookup, by any value and kind,
  returns a deleted token.
\<close>

theorem C7_password_change_revokes_refresh_tokens:
  assumes "changePassword bcrypt_compare bcrypt_hash now d req = (Inr r, d')"
    and "req_user req = Some ru"
  shows "tokens d' = filter (\<lambda>t. \<not> (token_userId t = user_id ru \<and> token_type t = ''refresh''))
                       (tokens d)
     \<and> (\<forall>t\<in>set (tokens d). token_userId t = user_id ru \<and> token_type t = ''refresh''
            \<longrightarrow> t \<notin> set (tokens d'))
     \<and> (\<forall>t\<in>set (tokens d). token_userId t \<noteq> user_id ru \<or> token_type t \<noteq> ''refresh''
            \<longrightarrow> t \<in> set (tokens d'))
     \<and> (\<forall>t\<in>set (tokens d). token_userId t = user_id ru \<and> token_type t = ''refresh''
            \<longrightarrow> (\<forall>v ty. Token_findOne d' v ty \<noteq> Some t))
     \<and> (\<forall>t\<in>set (tokens d).
           token_userId t = user_id ru \<and> token_type t = ''refresh''
           \<and> (\<forall>t'\<in>set (tokens d). token_value t' = token_value t \<and> token_type t' = ''refresh''
                  \<longrightarrow> token_userId t' = user_id ru)
           \<longrightarrow> Token_findOne d' (token_value t) ''refresh'' = None
             \<and> (\<forall>cast_query now' req'.
                    get_prop ''refreshToken'' (req_body req') = Some (JStr (token_value t))
                    \<and> token_value t \<noteq> []
                  \<longrightarrow> authenticateRefreshToken cast_query now' d' req'
                        = (Inl (APIError ''Invalid refresh token.'' 401), d')))"
proof -
  from changePassword_success [OF assms] obtain d1
    where d1: "tokens d1 = tokens d" and d': "d' = Token_deleteMany d1 (user_id ru) ''refresh''"
    by blast
  have tk: "tokens d' = filter (\<lambda>t. \<not> (token_userId t = user_id ru \<and> token_type t = ''refresh''))
                       (tokens d)"
    using d1 d' by (simp add: Token_deleteMany_def)
  have gone: "Token_findOne d' (token_value t) ''refresh'' = None"
    if "\<forall>t'\<in>set (tokens d). token_value t' = token_value t \<and> token_type t' = ''refresh''
                  \<longrightarrow> token_userId t' = user_id ru" for t
    using that unfolding Token_findOne_def tk find_None_all by auto
  have refused: "authenticateRefreshToken cast_query now' d' req'
                        = (Inl (APIError ''Invalid refresh token.'' 401), d')"
    if "Token_findOne d' v ''refresh'' = None"
      and "get_prop ''refreshToken'' (req_body req') = Some (JStr v)" and "v \<noteq> []"
    for cast_query now' req' v
  proof -
    have "req_body req' \<noteq> JNull" using that(2) by auto
    with that show ?thesis
      by (simp add: authenticateRefreshToken_def string_query_def Token_findOne_matching_eq)
  qed
  have never: "Token_findOne d' v ty \<noteq> Some t"
    if "token_userId t = user_id ru \<and> token_type t = ''refresh''" for t v ty
  proof
    assume "Token_findOne d' v ty = Some t"
    then have "t \<in> set (tokens d')"
      unfolding Token_findOne_def by (auto dest: find_Some_pred)
    with that tk show False by simp
  qed
  have answered: "Token_findOne d' (token_value t) ''refresh'' = None
             \<and> (\<forall>cast_query now' req'.
                    get_prop ''refreshToken'' (req_body req') = Some (JStr (token_value t))
                    \<and> token_value t \<noteq> []
                  \<longrightarrow> authenticateRefreshToken cast_query now' d' req'
                        = (Inl (APIError ''Invalid refresh token.'' 401), d'))"
    if "\<forall>t'\<in>set (tokens d). token_value t' = token_value t \<and> token_type t' = ''refresh''
                  \<longrightarrow> token_userId t' = user_id ru" for t
  proof -
    have g: "Token_findOne d' (token_value t) ''refresh'' = None" using that by (rule gone)
    have "authenticateRefreshToken cast_query now' d' req'
                        = (Inl (APIError ''Invalid refresh token.'' 401), d')"
      if "get_prop ''refreshToken'' (req_body req') = Some (JStr (token_value t))
                    \<and> token_value t \<noteq> []" for cast_query now' req'
      using refused [OF g] that by blast
    with g show ?thesis by blast
  qed
  show ?thesis
    using tk never answered by auto
qed

text \<open>
  Alice changes her password on the sample store: her two refresh tokens go, her
  verification token and Carol's refresh token stay.
\<close>

theorem C7_password_change_revokes_refresh_tokens_witness:
  "req_user ex_change_request = Some ex_alice
   \<and> fst (changePassword ex_compare ex_hash 2000 ex_db ex_change_request)
       = Inr \<lparr>res_statusCode = 200,
              res_data = JObj [(''success'', JBool True),
                               (''message'', JStr ''Password changed successfully'')]\<rparr>
   \<and> map token_value (tokens ex_db) = [''rt-alice-1'', ''rt-alice-2'', ''vt-alice'', ''rt-carol'']
   \<and> map token_value (tokens (snd (changePassword ex_compare ex_hash 2000 ex_db ex_change_request)))
       = [''vt-alice'', ''rt-carol'']
   \<and> authenticateRefreshToken ex_cast_query 2001
        (snd (changePassword ex_compare ex_hash 2000 ex_db ex_change_request)) ex_refresh_request
       = (Inl (APIError ''Invalid refresh token.'' 401),
          snd (changePassword ex_compare ex_hash 2000 ex_db ex_change_request))"
proof -
  let ?ok = "\<lparr>res_statusCode = 200,
              res_data = JObj [(''success'', JBool True),
                               (''message'', JStr ''Password changed successfully'')]\<rparr>"
  let ?d' = "snd (changePassword ex_compare ex_hash 2000 ex_db ex_change_request)"
  let ?t = "\<lparr>token_id = 301, token_userId = 1, token_value = ''rt-alice-2'',
             token_type = ''refresh'', expiresAt = 9000, metadata_serviceId = None,
             metadata_deviceInfo = [], metadata_ipAddress = []\<rparr>"
  have u: "req_user ex_change_request = Some ex_alice"
    by (simp add: ex_change_request_def)
  have f: "fst (changePassword ex_compare ex_hash 2000 ex_db ex_change_request) = Inr ?ok"
    by (simp add: changePassword_def User_save_password_def User_findById_def Let_def ex_defs)
  then have c: "changePassword ex_compare ex_hash 2000 ex_db ex_change_request = (Inr ?ok, ?d')"
    by (simp add: prod_eq_iff)
  note T = C7_password_change_revokes_refresh_tokens [OF c u]
  have before: "map token_value (tokens ex_db)
                  = [''rt-alice-1'', ''rt-alice-2'', ''vt-alice'', ''rt-carol'']"
    by (simp add: ex_db_def ex_tokens_def)
  from T have "tokens ?d'
      = filter (\<lambda>t. \<not> (token_userId t = user_id ex_alice \<and> token_type t = ''refresh''))
          (tokens ex_db)" by blast
  then have after: "map token_value (tokens ?d') = [''vt-alice'', ''rt-carol'']"
    by (simp add: ex_db_def ex_tokens_def ex_alice_def)
  have mem: "?t \<in> set (tokens ex_db)" by (simp add: ex_db_def ex_tokens_def)
  have own: "token_userId ?t = user_id ex_alice \<and> token_type ?t = ''refresh''
      \<and> (\<forall>t'\<in>set (tokens ex_db). token_value t' = token_value ?t \<and> token_type t' = ''refresh''
              \<longrightarrow> token_userId t' = user_id ex_alice)"
    by (simp add: ex_db_def ex_tokens_def ex_alice_def)
  have b: "get_prop ''refreshToken'' (req_body ex_refresh_request) = Some (JStr (token_value ?t))
           \<and> token_value ?t \<noteq> []"
    by (simp add: ex_refresh_request_def ex_public_request_def)
  from T mem own b
  have "authenticateRefreshToken ex_cast_query 2001 ?d' ex_refresh_request
          = (Inl (APIError ''Invalid refresh token.'' 401), ?d')"
    by blast
  with u f before after show ?thesis by simp
qed

section \<open>One relationship per user and service (C8)\<close>

text \<open>
  Claim C8.  \<open>assignUserToService\<close> for an existing user and service that already have a
  relationship answers 400 \<open>User is already assigned to this service\<close> and leaves the
  store unchanged.  With \<open>null\<close> for the service it fails whatever the store holds, again
  without a change.  At the store, saving a second relationship for a pair, the pair
  \<open>(user, null)\<close> included, is refused by the unique index.  Stores whose pairs are
  distinct stay so under both operations.
\<close>

theorem C8_one_grant_per_pair:
  "(\<forall>u s U S g. ab_userId body = Some u \<and> ab_serviceId body = Some s
        \<and> User_findById d u = Some U \<and> Service_findById d s = Some S
        \<and> g \<in> set (userServices d) \<and> us_userId g = u \<and> us_serviceId g = Some s
      \<longrightarrow> assignUserToService new_id d body
            = (Inl (APIError ''User is already assigned to this service'' 400), d))
   \<and> (ab_serviceId body = None
      \<longrightarrow> isl (fst (assignUserToService new_id d body))
          \<and> snd (assignUserToService new_id d body) = d)
   \<and> (\<forall>g x. x \<in> set (userServices d) \<and> us_userId x = us_userId g
          \<and> us_serviceId x = us_serviceId g
      \<longrightarrow> isl (UserService_save d g)
          \<and> (us_status g = ''active'' \<or> us_status g = ''suspended''
              \<longrightarrow> UserService_save d g
                    = Inl (DuplicateKey ''userId'' (string_of_nat (us_userId g)))))
   \<and> (distinct (grant_keys d)
      \<longrightarrow> distinct (grant_keys (snd (assignUserToService new_id d body)))
          \<and> (\<forall>g d'. UserService_save d g = Inr d'
                \<longrightarrow> distinct (grant_keys d')))"
proof -
  have a: "assignUserToService new_id d body
            = (Inl (APIError ''User is already assigned to this service'' 400), d)"
    if "ab_userId body = Some u" "ab_serviceId body = Some s" "User_findById d u = Some U"
       "Service_findById d s = Some S" "g \<in> set (userServices d)" "us_userId g = u"
       "us_serviceId g = Some s" for u s U S g
  proof -
    from UserService_findOne_existing [OF that(5) that(6) that(7)]
    obtain g' where "UserService_findOne d u (Some s) = Some g'" by blast
    with that show ?thesis by (simp add: assignUserToService_def)
  qed
  have b: "ab_serviceId body = None
      \<longrightarrow> isl (fst (assignUserToService new_id d body))
          \<and> snd (assignUserToService new_id d body) = d"
    by (auto simp: assignUserToService_def split: option.splits)
  have c: "isl (UserService_save d g)
          \<and> (us_status g = ''active'' \<or> us_status g = ''suspended''
              \<longrightarrow> UserService_save d g
                    = Inl (DuplicateKey ''userId'' (string_of_nat (us_userId g))))"
    if "x \<in> set (userServices d)" "us_userId x = us_userId g" "us_serviceId x = us_serviceId g"
    for g x
    using that by (auto simp: UserService_save_def list_ex_iff)
  have e: "distinct (grant_keys (snd (assignUserToService new_id d body)))"
    if "distinct (grant_keys d)"
    using assignUserToService_store [of new_id d body] that
    by (auto dest: UserService_save_distinct)
  have f: "distinct (grant_keys d')" if "distinct (grant_keys d)" "UserService_save d g = Inr d'"
    for g d'
    using that by (rule UserService_save_distinct)
  from a b c e f show ?thesis by blast
qed

text \<open>
  On the sample store: Carol and billing are already related; Alice already has a global
  relationship; a request with \<open>null\<close> for the service is refused; relating Carol to the
  reports service adds a fifth relationship and keeps the pairs distinct.
\<close>

theorem C8_one_grant_per_pair_witness:
  "User_findById ex_db 3 = Some ex_carol \<and> Service_findById ex_db 10 = Some ex_billing
   \<and> \<lparr>us_id = 202, us_userId = 3, us_serviceId = Some 10, us_roles = [102],
       us_status = ''active''\<rparr> \<in> set (userServices ex_db)
   \<and> assignUserToService 204 ex_db
        \<lparr>ab_userId = Some 3, ab_serviceId = Some 10, ab_roles = Some [103], ab_status = None\<rparr>
       = (Inl (APIError ''User is already assigned to this service'' 400), ex_db)
   \<and> \<lparr>us_id = 200, us_userId = 1, us_serviceId = None, us_roles = [100],
       us_status = ''active''\<rparr> \<in> set (userServices ex_db)
   \<and> UserService_save ex_db
        \<lparr>us_id = 204, us_userId = 1, us_serviceId = None, us_roles = [101], us_status = ''active''\<rparr>
       = Inl (DuplicateKey ''userId'' ''1'')
   \<and> isl (fst (assignUserToService 204 ex_db
        \<lparr>ab_userId = Some 3, ab_serviceId = None, ab_roles = Some [101], ab_status = None\<rparr>))
   \<and> snd (assignUserToService 204 ex_db
        \<lparr>ab_userId = Some 3, ab_serviceId = None, ab_roles = Some [101], ab_status = None\<rparr>)
       = ex_db
   \<and> distinct (grant_keys ex_db)
   \<and> distinct (grant_keys (snd (assignUserToService 204 ex_db
        \<lparr>ab_userId = Some 3, ab_serviceId = Some 12, ab_roles = Some [101], ab_status = None\<rparr>)))
   \<and> length (userServices (snd (assignUserToService 204 ex_db
           \<lparr>ab_userId = Some 3, ab_serviceId = Some 12, ab_roles = Some [101], ab_status = None\<rparr>)))
       = 5"
proof -
  let ?b1 = "\<lparr>ab_userId = Some 3, ab_serviceId = Some 10, ab_roles = Some [103], ab_status = None\<rparr>"
  let ?b2 = "\<lparr>ab_userId = Some 3, ab_serviceId = Some 12, ab_roles = Some [101], ab_status = None\<rparr>"
  let ?g1 = "\<lparr>us_id = 202, us_userId = 3, us_serviceId = Some 10, us_roles = [102],
              us_status = ''active''\<rparr>"
  let ?g0 = "\<lparr>us_id = 200, us_userId = 1, us_serviceId = None, us_roles = [100],
              us_status = ''active''\<rparr>"
  let ?n = "\<lparr>us_id = 204, us_userId = 1, us_serviceId = None, us_roles = [101],
             us_status = ''active''\<rparr>"
  have u: "User_findById ex_db 3 = Some ex_carol" by (simp add: User_findById_def ex_defs)
  have s: "Service_findById ex_db 10 = Some ex_billing" by (simp add: Service_findById_def ex_defs)
  have m1: "?g1 \<in> set (userServices ex_db)" by (simp add: ex_db_def ex_grants_def)
  have m0: "?g0 \<in> set (userServices ex_db)" by (simp add: ex_db_def ex_grants_def)
  have dist: "distinct (grant_keys ex_db)"
    by (simp add: grant_keys_def ex_db_def ex_grants_def)
  have r1: "assignUserToService 204 ex_db ?b1
             = (Inl (APIError ''User is already assigned to this service'' 400), ex_db)"
    using C8_one_grant_per_pair [of ?b1 ex_db 204, THEN conjunct1, rule_format,
        of 3 10 ex_carol ex_billing ?g1] u s m1
    by simp
  have "UserService_save ex_db ?n = Inl (DuplicateKey ''userId'' (string_of_nat (us_userId ?n)))"
    using C8_one_grant_per_pair [of ?b1 ex_db 204, THEN conjunct2, THEN conjunct2, THEN conjunct1,
        rule_format, of ?g0 ?n, THEN conjunct2] m0
    by simp
  then have r2: "UserService_save ex_db ?n = Inl (DuplicateKey ''userId'' ''1'')"
    by (simp add: string_of_nat.simps digit_def)
  let ?b3 = "\<lparr>ab_userId = Some 3, ab_serviceId = None, ab_roles = Some [101], ab_status = None\<rparr>"
  have "ab_serviceId ?b3 = None" by simp
  from C8_one_grant_per_pair [of ?b3 ex_db 204, THEN conjunct2, THEN conjunct1, rule_format, OF this]
  have r5: "isl (fst (assignUserToService 204 ex_db ?b3))
            \<and> snd (assignUserToService 204 ex_db ?b3) = ex_db" .
  have r3: "distinct (grant_keys (snd (assignUserToService 204 ex_db ?b2)))"
    using C8_one_grant_per_pair [of ?b2 ex_db 204, THEN conjunct2, THEN conjunct2, THEN conjunct2,
        rule_format, THEN conjunct1] dist
    by simp
  have r4: "length (userServices (snd (assignUserToService 204 ex_db ?b2))) = 5"
    by (simp add: assignUserToService_def UserService_save_def UserService_findOne_def
        Role_find_valid_def User_findById_def Service_findById_def Let_def ex_defs
        populated_json_def)
  from u s m1 m0 dist r1 r2 r3 r4 r5 show ?thesis by simp
qed

section \<open>Deleting a role (C9)\<close>

text \<open>
  Claim C9, as the code has it.  For a stored role other than the global \<open>admin\<close> and the
  global \<open>user\<close> role: while some relationship references it, \<open>deleteRole\<close> answers 400
  with the number of referencing relationships and the role stays stored; when no
  relationship references it, \<open>deleteRole\<close> answers 200 and the role is gone.  The global
  \<open>admin\<close> role and the global \<open>user\<close> role are refused with 403, with the store left as
  it was, whether or not a relationship references them.
\<close>

theorem C9_delete_role:
  assumes "Role_findById d rid = Some r"
  shows "(isGlobal r \<and> role_name r = ''admin'' \<longrightarrow>
            deleteRole d rid = (Inl (APIError ''Cannot delete the global admin role'' 403), d)
            \<and> Role_findById (snd (deleteRole d rid)) rid = Some r)
       \<and> (isGlobal r \<and> role_name r = ''user'' \<longrightarrow>
            deleteRole d rid = (Inl (APIError ''Cannot delete the global user role'' 403), d)
            \<and> Role_findById (snd (deleteRole d rid)) rid = Some r)
       \<and> (\<not> (isGlobal r \<and> (role_name r = ''admin'' \<or> role_name r = ''user'')) \<longrightarrow>
            ((\<exists>g\<in>set (userServices d). rid \<in> set (us_roles g)) \<longrightarrow>
               deleteRole d rid
                 = (Inl (APIError (''Cannot delete role '' @ [CHR 0x27] @ role_name r @ [CHR 0x27]
                                    @ '' because it is assigned to ''
                                    @ string_of_nat (UserService_countDocuments_role d rid)
                                    @ '' users'') 400), d)
               \<and> Role_findById (snd (deleteRole d rid)) rid = Some r)
          \<and> (\<not> (\<exists>g\<in>set (userServices d). rid \<in> set (us_roles g)) \<longrightarrow>
               deleteRole d rid
                 = (Inr \<lparr>res_statusCode = 200,
                         res_data = JObj [(''success'', JBool True),
                                          (''message'', JStr ''Role deleted successfully'')]\<rparr>,
                    d\<lparr>roles := filter (\<lambda>x. role_id x \<noteq> rid) (roles d)\<rparr>)
               \<and> Role_findById (snd (deleteRole d rid)) rid = None))"
proof -
  have rid: "role_id r = rid" using assms by (simp add: Role_findById_id)
  have admin: "deleteRole d rid = (Inl (APIError ''Cannot delete the global admin role'' 403), d)
            \<and> Role_findById (snd (deleteRole d rid)) rid = Some r"
    if "isGlobal r \<and> role_name r = ''admin''"
    using that assms by (simp add: deleteRole_def)
  have user: "deleteRole d rid = (Inl (APIError ''Cannot delete the global user role'' 403), d)
            \<and> Role_findById (snd (deleteRole d rid)) rid = Some r"
    if "isGlobal r \<and> role_name r = ''user''"
    using that assms by (simp add: deleteRole_def)
  have used: "deleteRole d rid
                 = (Inl (APIError (''Cannot delete role '' @ [CHR 0x27] @ role_name r @ [CHR 0x27]
                                    @ '' because it is assigned to ''
                                    @ string_of_nat (UserService_countDocuments_role d rid)
                                    @ '' users'') 400), d)
               \<and> Role_findById (snd (deleteRole d rid)) rid = Some r"
    if "\<not> (isGlobal r \<and> (role_name r = ''admin'' \<or> role_name r = ''user''))"
      and "\<exists>g\<in>set (userServices d). rid \<in> set (us_roles g)"
  proof -
    from that(2) have "UserService_countDocuments_role d rid > 0" by (simp add: count_pos_iff)
    with that(1) assms rid show ?thesis
      by (auto simp: deleteRole_def Let_def)
  qed
  have unused: "deleteRole d rid
                 = (Inr \<lparr>res_statusCode = 200,
                         res_data = JObj [(''success'', JBool True),
                                          (''message'', JStr ''Role deleted successfully'')]\<rparr>,
                    d\<lparr>roles := filter (\<lambda>x. role_id x \<noteq> rid) (roles d)\<rparr>)
               \<and> Role_findById (snd (deleteRole d rid)) rid = None"
    if "\<not> (isGlobal r \<and> (role_name r = ''admin'' \<or> role_name r = ''user''))"
      and "\<not> (\<exists>g\<in>set (userServices d). rid \<in> set (us_roles g))"
  proof -
    from that(2) have "\<not> UserService_countDocuments_role d rid > 0" by (simp add: count_pos_iff)
    with that(1) assms rid show ?thesis
      by (auto simp: deleteRole_def Let_def Role_deleteOne_def Role_findById_filtered)
  qed
  show ?thesis
  proof (intro conjI impI)
    assume a: "isGlobal r \<and> role_name r = ''admin''"
    from admin [OF a]
    show "deleteRole d rid = (Inl (APIError ''Cannot delete the global admin role'' 403), d)"
      and "Role_findById (snd (deleteRole d rid)) rid = Some r"
      by blast+
  next
    assume a: "isGlobal r \<and> role_name r = ''user''"
    from user [OF a]
    show "deleteRole d rid = (Inl (APIError ''Cannot delete the global user role'' 403), d)"
      and "Role_findById (snd (deleteRole d rid)) rid = Some r"
      by blast+
  next
    assume p: "\<not> (isGlobal r \<and> (role_name r = ''admin'' \<or> role_name r = ''user''))"
      and u: "\<exists>g\<in>set (userServices d). rid \<in> set (us_roles g)"
    from used [OF p u]
    show "deleteRole d rid
                 = (Inl (APIError (''Cannot delete role '' @ [CHR 0x27] @ role_name r @ [CHR 0x27]
                                    @ '' because it is assigned to ''
                                    @ string_of_nat (UserService_countDocuments_role d rid)
                                    @ '' users'') 400), d)"
      and "Role_findById (snd (deleteRole d rid)) rid = Some r"
      by blast+
  next
    assume p: "\<not> (isGlobal r \<and> (role_name r = ''admin'' \<or> role_name r = ''user''))"
      and u: "\<not> (\<exists>g\<in>set (userServices d). rid \<in> set (us_roles g))"
    from unused [OF p u]
    show "deleteRole d rid
                 = (Inr \<lparr>res_statusCode = 200,
                         res_data = JObj [(''success'', JBool True),
                                          (''message'', JStr ''Role deleted successfully'')]\<rparr>,
                    d\<lparr>roles := filter (\<lambda>x. role_id x \<noteq> rid) (roles d)\<rparr>)"
      and "Role_findById (snd (deleteRole d rid)) rid = None"
      by blast+
  qed
qed

text \<open>
  On the sample store: the editor role, referenced by two relationships, and the same
  role once no relationship is left; the global \<open>admin\<close> role, referenced by Alice's global
  relationship, and the global \<open>user\<close> role with and without a relationship that
  references it.
\<close>

theorem C9_delete_role_witness:
  "Role_findById ex_db 103 = Some ex_editor_role \<and> \<not> isGlobal ex_editor_role
   \<and> (\<exists>g\<in>set (userServices ex_db). 103 \<in> set (us_roles g))
   \<and> deleteRole ex_db 103
       = (Inl (APIError (''Cannot delete role '' @ [CHR 0x27] @ ''editor'' @ [CHR 0x27]
                          @ '' because it is assigned to 2 users'') 400), ex_db)
   \<and> Role_findById ex_db_no_grants 103 = Some ex_editor_role
   \<and> \<not> (\<exists>g\<in>set (userServices ex_db_no_grants). 103 \<in> set (us_roles g))
   \<and> fst (deleteRole ex_db_no_grants 103)
       = Inr \<lparr>res_statusCode = 200,
              res_data = JObj [(''success'', JBool True),
                               (''message'', JStr ''Role deleted successfully'')]\<rparr>
   \<and> Role_findById (snd (deleteRole ex_db_no_grants 103)) 103 = None
   \<and> Role_findById ex_db 100 = Some ex_admin_role
   \<and> (\<exists>g\<in>set (userServices ex_db). 100 \<in> set (us_roles g))
   \<and> deleteRole ex_db 100 = (Inl (APIError ''Cannot delete the global admin role'' 403), ex_db)
   \<and> Role_findById ex_db 101 = Some ex_user_role
   \<and> (\<exists>g\<in>set (userServices ex_db). 101 \<in> set (us_roles g))
   \<and> deleteRole ex_db 101 = (Inl (APIError ''Cannot delete the global user role'' 403), ex_db)
   \<and> Role_findById ex_db_no_grants 101 = Some ex_user_role
   \<and> \<not> (\<exists>g\<in>set (userServices ex_db_no_grants). 101 \<in> set (us_roles g))
   \<and> deleteRole ex_db_no_grants 101
       = (Inl (APIError ''Cannot delete the global user role'' 403), ex_db_no_grants)"
proof -
  have f1: "Role_findById ex_db 103 = Some ex_editor_role"
    by (simp add: Role_findById_def ex_defs)
  have f2: "Role_findById ex_db_no_grants 103 = Some ex_editor_role"
    by (simp add: Role_findById_def ex_defs)
  have f3: "Role_findById ex_db 100 = Some ex_admin_role"
    by (simp add: Role_findById_def ex_defs)
  have f4: "Role_findById ex_db 101 = Some ex_user_role"
    by (simp add: Role_findById_def ex_defs)
  have f5: "Role_findById ex_db_no_grants 101 = Some ex_user_role"
    by (simp add: Role_findById_def ex_defs)
  have p: "\<not> (isGlobal ex_editor_role
              \<and> (role_name ex_editor_role = ''admin'' \<or> role_name ex_editor_role = ''user''))"
    by (simp add: ex_editor_role_def)
  have pa: "isGlobal ex_admin_role \<and> role_name ex_admin_role = ''admin''"
    by (simp add: ex_admin_role_def)
  have pu: "isGlobal ex_user_role \<and> role_name ex_user_role = ''user''"
    by (simp add: ex_user_role_def)
  have g: "\<not> isGlobal ex_editor_role" by (simp add: ex_editor_role_def)
  have used: "\<exists>g\<in>set (userServices ex_db). 103 \<in> set (us_roles g)"
    by (simp add: ex_db_def ex_grants_def)
  have used_admin: "\<exists>g\<in>set (userServices ex_db). 100 \<in> set (us_roles g)"
    by (simp add: ex_db_def ex_grants_def)
  have used_user: "\<exists>g\<in>set (userServices ex_db). 101 \<in> set (us_roles g)"
    by (simp add: ex_db_def ex_grants_def)
  have unused: "\<not> (\<exists>g\<in>set (userServices ex_db_no_grants). 103 \<in> set (us_roles g))"
    by (simp add: ex_db_no_grants_def)
  have unused_user: "\<not> (\<exists>g\<in>set (userServices ex_db_no_grants). 101 \<in> set (us_roles g))"
    by (simp add: ex_db_no_grants_def)
  have n: "string_of_nat (UserService_countDocuments_role ex_db 103) = ''2''"
    by (simp add: UserService_countDocuments_role_def ex_db_def ex_grants_def
        string_of_nat.simps digit_def)
  from C9_delete_role [OF f1, THEN conjunct2, THEN conjunct2, rule_format, OF p,
      THEN conjunct1, rule_format, OF used, THEN conjunct1]
  have r1: "deleteRole ex_db 103
       = (Inl (APIError (''Cannot delete role '' @ [CHR 0x27] @ ''editor'' @ [CHR 0x27]
                          @ '' because it is assigned to 2 users'') 400), ex_db)"
    by (simp add: n ex_editor_role_def)
  from C9_delete_role [OF f2, THEN conjunct2, THEN conjunct2, rule_format, OF p,
      THEN conjunct2, rule_format, OF unused]
  have r2: "fst (deleteRole ex_db_no_grants 103)
       = Inr \<lparr>res_statusCode = 200,
              res_data = JObj [(''success'', JBool True),
                               (''message'', JStr ''Role deleted successfully'')]\<rparr>
     \<and> Role_findById (snd (deleteRole ex_db_no_grants 103)) 103 = None"
    by (metis fst_conv)
  from C9_delete_role [OF f3, THEN conjunct1, rule_format, OF pa, THEN conjunct1]
  have r3: "deleteRole ex_db 100 = (Inl (APIError ''Cannot delete the global admin role'' 403), ex_db)" .
  from C9_delete_role [OF f4, THEN conjunct2, THEN conjunct1, rule_format, OF pu, THEN conjunct1]
  have r4: "deleteRole ex_db 101 = (Inl (APIError ''Cannot delete the global user role'' 403), ex_db)" .
  from C9_delete_role [OF f5, THEN conjunct2, THEN conjunct1, rule_format, OF pu, THEN conjunct1]
  have r5: "deleteRole ex_db_no_grants 101
       = (Inl (APIError ''Cannot delete the global user role'' 403), ex_db_no_grants)" .
  from f1 f2 f3 f4 f5 g used used_admin used_user unused unused_user r1 r2 r3 r4 r5
  show ?thesis by blast
qed

text \<open>
  Claim C9 as it was written covers every role.  The global \<open>user\<close> role is referenced
  by no relationship and still cannot be deleted; the global \<open>admin\<close> role is referenced
  by one relationship and the answer is 403, not the in-use answer.
\<close>

theorem C9_protected_role_counterexample:
  "Role_findById ex_db_no_grants 101 = Some ex_user_role
   \<and> UserService_countDocuments_role ex_db_no_grants 101 = 0
   \<and> deleteRole ex_db_no_grants 101
       = (Inl (APIError ''Cannot delete the global user role'' 403), ex_db_no_grants)
   \<and> Role_findById ex_db 100 = Some ex_admin_role
   \<and> UserService_countDocuments_role ex_db 100 = 1
   \<and> deleteRole ex_db 100 = (Inl (APIError ''Cannot delete the global admin role'' 403), ex_db)"
  by (simp add: deleteRole_def Role_findById_def UserService_countDocuments_role_def ex_defs)

end
